theory Spec2Isabelle
  imports Complex_Main "HOL-Library.AList" "HOL-Library.Char_ord" "HOL-Library.List_Lexorder"
    "HOL-Library.Log_Nat"
begin

section \<open>The usage-analytics engine of ccseva (src/services/ccusageService.ts)\<close>

text \<open>
  The model follows \<^verbatim>\<open>CCUsageService\<close> function by function.
  \<^item> A JavaScript \<^verbatim>\<open>number\<close> that holds a token count is a \<^typ>\<open>nat\<close>; a time
    value (the milliseconds of a \<^verbatim>\<open>Date\<close>) is an \<^typ>\<open>int\<close>; every other number
    (rates, ratios, costs) is a \<^typ>\<open>rat\<close>.
  \<^item> The velocity decides its trend on the results of double arithmetic, so there every
    operation is rounded to the nearest double (\<open>fl\<close>). Elsewhere the arithmetic is
    exact where the source computes in doubles.
  \<^item> The private fields of the service are the record \<open>service\<close>; a method that writes
    them returns the new record.
  \<^item> A thrown exception is the \<open>Inl\<close> of a sum.
  \<^item> The collaborators whose code is elsewhere (the reset-time service, the session
    tracker, the data loader) are parameters.
  \<^item> The clock is read once per call: every \<^verbatim>\<open>new Date()\<close> and \<^verbatim>\<open>Date.now()\<close> of one call
    is the parameter \<open>now\<close>.
\<close>

subsection \<open>Numbers and strings of the platform\<close>

text \<open>\<^verbatim>\<open>Math.round\<close>: to the nearest integer, a half towards plus infinity.\<close>

definition js_round :: "rat \<Rightarrow> int" where
  "js_round x = \<lfloor>x + 1 / 2\<rfloor>"

text \<open>\<^verbatim>\<open>ToIntegerOrInfinity\<close> on a finite number: truncation towards zero.\<close>

definition js_trunc :: "rat \<Rightarrow> int" where
  "js_trunc x = (if 0 \<le> x then \<lfloor>x\<rfloor> else \<lceil>x\<rceil>)"

text \<open>
  IEEE 754 binary64 below the overflow threshold. \<open>pow2 k\<close> is 2 to the power \<open>k\<close>;
  \<open>ilog2 x\<close>, for a positive \<open>x\<close>, is the exponent \<open>e\<close> with \<open>pow2 e \<le> x < pow2 (e + 1)\<close>.
  \<open>fl x\<close> is the double nearest to \<open>x\<close>, a tie going to the even significand: \<open>x\<close> is
  rounded to a multiple of \<open>pow2 (e - 52)\<close>, where \<open>e\<close> is the exponent of \<open>x\<close> and at least
  -1022 (the subnormal numbers are the multiples of \<open>pow2 (- 1074)\<close>). An arithmetic
  operation on doubles returns \<open>fl\<close> of the exact result.
\<close>

definition pow2 :: "int \<Rightarrow> rat" where
  "pow2 k = (if 0 \<le> k then 2 ^ nat k else 1 / 2 ^ nat (- k))"

definition ilog2 :: "rat \<Rightarrow> int" where
  "ilog2 x =
     (case quotient_of x of (p, q) \<Rightarrow>
        (let d = bitlen p - bitlen q in if pow2 d \<le> x then d else d - 1))"

definition round_half_even :: "rat \<Rightarrow> int" where
  "round_half_even m =
     (let f = \<lfloor>m\<rfloor>; r = m - of_int f
      in if r < 1 / 2 then f else if 1 / 2 < r then f + 1 else if even f then f else f + 1)"

definition fl :: "rat \<Rightarrow> rat" where
  "fl x =
     (if x = 0 then 0
      else
        let e = max (- 1022) (ilog2 \<bar>x\<bar>);
            q = pow2 (e - 52)
        in sgn x * of_int (round_half_even (\<bar>x\<bar> / q)) * q)"

definition digit_char :: "nat \<Rightarrow> char" where
  "digit_char d = char_of (48 + d)"

text \<open>The decimal digits of a natural number, as \<^verbatim>\<open>Number.prototype.toString\<close> prints them.\<close>

fun digits :: "nat \<Rightarrow> string" where
  "digits n = (if n < 10 then [digit_char n] else digits (n div 10) @ [digit_char (n mod 10)])"

declare digits.simps [simp del]

definition int_toString :: "int \<Rightarrow> string" where
  "int_toString i = (if i < 0 then CHR ''-'' # digits (nat (- i)) else digits (nat i))"

text \<open>\<^verbatim>\<open>s.padStart(n, '0')\<close>.\<close>

definition padStart :: "nat \<Rightarrow> string \<Rightarrow> string" where
  "padStart n s = replicate (n - length s) CHR ''0'' @ s"

text \<open>\<^verbatim>\<open>s.split('T')[0]\<close>: the text before the first \<^verbatim>\<open>T\<close>.\<close>

definition split_T_0 :: "string \<Rightarrow> string" where
  "split_T_0 s = takeWhile (\<lambda>c. c \<noteq> CHR ''T'') s"

subsection \<open>Dates of the platform\<close>

text \<open>
  The proleptic Gregorian calendar of ECMAScript: the civil date (year, month, day) of a
  day number counted from 1970-01-01.
\<close>

definition civil_from_days :: "int \<Rightarrow> int \<times> int \<times> int" where
  "civil_from_days days =
     (let z = days + 719468;
          era = z div 146097;
          doe = z - era * 146097;
          yoe = (doe - doe div 1460 + doe div 36524 - doe div 146096) div 365;
          doy = doe - (365 * yoe + yoe div 4 - yoe div 100);
          mp = (5 * doy + 2) div 153;
          d = doy - (153 * mp + 2) div 5 + 1;
          m = (if mp < 10 then mp + 3 else mp - 9);
          y = yoe + era * 400 + (if m \<le> 2 then 1 else 0)
      in (y, m, d))"

definition ms_per_day :: int where
  "ms_per_day = 86400000"

text \<open>The largest time value of a valid \<^verbatim>\<open>Date\<close> (\<^verbatim>\<open>TimeClip\<close>).\<close>

definition max_time_value :: int where
  "max_time_value = 8640000000000000"

definition pad_int :: "nat \<Rightarrow> int \<Rightarrow> string" where
  "pad_int n i = padStart n (int_toString i)"

definition time_fields :: "int \<Rightarrow> string" where
  "time_fields t =
     (let r = t mod ms_per_day
      in pad_int 2 (r div 3600000) @ '':'' @ pad_int 2 (r div 60000 mod 60) @ '':'' @
         pad_int 2 (r div 1000 mod 60) @ ''.'' @ pad_int 3 (r mod 1000))"

text \<open>\<^verbatim>\<open>Date.prototype.toISOString\<close> of a valid time value.\<close>

definition toISOString :: "int \<Rightarrow> string" where
  "toISOString t =
     (case civil_from_days (t div ms_per_day) of (y, m, d) \<Rightarrow>
        (if 0 \<le> y \<and> y \<le> 9999 then pad_int 4 y
         else (if y < 0 then ''-'' else ''+'') @ pad_int 6 \<bar>y\<bar>) @
        ''-'' @ pad_int 2 m @ ''-'' @ pad_int 2 d @ ''T'' @ time_fields t @ ''Z'')"

text \<open>
  What the platform supplies beyond the calendar: the offset of the local time zone in
  minutes at a date (\<^verbatim>\<open>getTimezoneOffset\<close>); \<^verbatim>\<open>new Date(s).getTime()\<close> for a string \<open>s\<close>,
  \<open>None\<close> standing for an invalid date; and the date that
  \<^verbatim>\<open>d.setDate(d.getDate() - n)\<close> makes of a date \<open>d\<close>, which is the same local time of day
  \<open>n\<close> days earlier.
\<close>

record platform =
  timezoneOffset :: "int \<Rightarrow> int"
  dateParse :: "string \<Rightarrow> int option"
  daysBefore :: "int \<Rightarrow> int \<Rightarrow> int"

text \<open>\<^verbatim>\<open>toISOStringLocal\<close> (lines 102 to 121).\<close>

definition toISOStringLocal :: "'a platform_scheme \<Rightarrow> int \<Rightarrow> string" where
  "toISOStringLocal pf date =
     (let timezoneOffsetMinutes = timezoneOffset pf date;
          loc = date - timezoneOffsetMinutes * 60000
      in case civil_from_days (loc div ms_per_day) of (year, month, day) \<Rightarrow>
         (let offsetSign = (if timezoneOffsetMinutes > 0 then ''-'' else ''+'');
              offsetHours = pad_int 2 (\<bar>timezoneOffsetMinutes\<bar> div 60);
              offsetMinutes = pad_int 2 (\<bar>timezoneOffsetMinutes\<bar> mod 60);
              timezoneOffsetString = offsetSign @ offsetHours @ '':'' @ offsetMinutes
          in int_toString year @ ''-'' @ pad_int 2 month @ ''-'' @ pad_int 2 day @ ''T'' @
             time_fields loc @ timezoneOffsetString))"

subsection \<open>The data of the service\<close>

datatype plan = Pro | Max5 | Max20 | Custom

text \<open>The \<^verbatim>\<open>plan\<close> field of a configuration: a plan, or the selection \<^verbatim>\<open>'auto'\<close>.\<close>

datatype plan_choice = Plan plan | Auto

datatype trend = increasing | decreasing | stable

datatype js_error = LoaderRejected string | RangeError

record token_counts =
  inputTokens :: nat
  outputTokens :: nat
  cacheCreationInputTokens :: nat
  cacheReadInputTokens :: nat

text \<open>
  \<^verbatim>\<open>SessionBlock\<close>. The optional \<^verbatim>\<open>isGap\<close> is \<open>False\<close> when absent; the \<^verbatim>\<open>entries\<close> of a
  block are never read by the service and are left out.
\<close>

record session_block =
  block_id :: string
  startTime :: int
  endTime :: int
  actualEndTime :: "int option"
  isActive :: bool
  isGap :: bool
  tokenCounts :: token_counts
  costUSD :: rat
  models :: "string list"

text \<open>\<^verbatim>\<open>CCUsageBlock\<close>, as \<^verbatim>\<open>convertSessionBlocksToCC\<close> builds it.\<close>

record cc_usage_block =
  cc_id :: string
  cc_startTime :: string
  cc_endTime :: string
  cc_actualEndTime :: "string option"
  cc_isActive :: bool
  cc_isGap :: bool
  cc_models :: "string list"
  cc_costUSD :: rat
  cc_tokenCounts :: token_counts

record model_breakdown =
  modelName :: string
  mb_inputTokens :: nat
  mb_outputTokens :: nat
  mb_cacheCreationTokens :: nat
  mb_cacheReadTokens :: nat
  mb_cost :: rat

record daily_data_entry =
  de_date :: string
  de_inputTokens :: nat
  de_outputTokens :: nat
  de_cacheCreationTokens :: nat
  de_cacheReadTokens :: nat
  de_totalCost :: rat
  modelBreakdowns :: "model_breakdown list"

record model_usage =
  tokens :: nat
  cost :: rat

text \<open>
  \<^verbatim>\<open>DailyUsage\<close>. The object \<^verbatim>\<open>models\<close> is an association list in the order in which its
  keys were first written.
\<close>

record daily_usage =
  date :: string
  totalTokens :: nat
  totalCost :: rat
  du_models :: "(string \<times> model_usage) list"

record velocity_info =
  current :: rat
  average24h :: rat
  average7d :: rat
  trend_of :: trend
  trendPercent :: rat
  peakHour :: nat
  isAccelerating :: bool

record prediction_info =
  depletionTime :: "string option"
  confidence :: int
  daysRemaining :: rat
  recommendedDailyLimit :: rat
  onTrackForReset :: bool

record actual_reset_info =
  nextResetTime :: "int option"
  timeUntilReset :: int
  formattedTimeRemaining :: string

text \<open>
  \<^verbatim>\<open>UsageStats\<close>. The reset information \<open>'r\<close> and the session tracking \<open>'t\<close> are made by
  the collaborators.
\<close>

record ('r, 't) usage_stats =
  today :: daily_usage
  thisWeek :: "daily_usage list"
  thisMonth :: "daily_usage list"
  burnRate :: rat
  velocity :: velocity_info
  prediction :: prediction_info
  resetInfo :: 'r
  actualResetInfo :: actual_reset_info
  predictedDepleted :: "string option"
  stats_currentPlan :: plan
  tokenLimit :: nat
  tokensUsed :: nat
  tokensRemaining :: nat
  percentageUsed :: rat
  sessionTracking :: 't

text \<open>The private fields of \<^verbatim>\<open>CCUsageService\<close>.\<close>

record ('r, 't) service =
  cachedStats :: "('r, 't) usage_stats option"
  lastUpdate :: int
  historicalBlocks :: "session_block list"
  currentActiveBlock :: "session_block option"
  currentPlan :: plan
  detectedTokenLimit :: nat

text \<open>The service as the constructor leaves it.\<close>

definition initial_service :: "('r, 't) service" where
  "initial_service =
     \<lparr>cachedStats = None, lastUpdate = 0, historicalBlocks = [], currentActiveBlock = None,
      currentPlan = Pro, detectedTokenLimit = 7000\<rparr>"

definition CACHE_DURATION :: int where
  "CACHE_DURATION = 3000"

text \<open>
  The environment of one call: the platform, and what the reset-time service and the
  session tracker answer during that call.
\<close>

record ('r, 't) environment = platform +
  calculateResetInfo :: 'r
  calculateRecommendedDailyLimit :: "nat \<Rightarrow> 'r \<Rightarrow> rat"
  isOnTrackForReset :: "nat \<Rightarrow> nat \<Rightarrow> 'r \<Rightarrow> bool"
  updateFromBlocks :: "cc_usage_block list \<Rightarrow> 't"

text \<open>
  \<^verbatim>\<open>Partial<UserConfiguration>\<close>: the fields the caller passes (the preload bridge passes
  these four).
\<close>

record user_configuration =
  cfg_timezone :: "string option"
  cfg_resetHour :: "int option"
  cfg_plan :: "plan_choice option"
  cfg_customTokenLimit :: "nat option"

text \<open>
  What the two loaders of \<^verbatim>\<open>ccusage/data-loader\<close> answer when they are awaited: a rejection,
  or the blocks and the daily data (either may be absent).
\<close>

type_synonym loader_result =
  "js_error + (session_block list option \<times> daily_data_entry list option)"

subsection \<open>Reading blocks\<close>

text \<open>\<^verbatim>\<open>getTotalTokensFromBlock\<close> (lines 302 to 310).\<close>

definition getTotalTokensFromBlock :: "session_block \<Rightarrow> nat" where
  "getTotalTokensFromBlock block =
     (let counts = tokenCounts block
      in inputTokens counts + outputTokens counts + cacheCreationInputTokens counts +
         cacheReadInputTokens counts)"

text \<open>\<^verbatim>\<open>getTokenLimit\<close> (lines 501 to 512); the \<^verbatim>\<open>default\<close> case is the plan \<open>Custom\<close>.\<close>

fun getTokenLimit :: "plan \<Rightarrow> nat" where
  "getTokenLimit Pro = 7000"
| "getTokenLimit Max5 = 35000"
| "getTokenLimit Max20 = 140000"
| "getTokenLimit Custom = 500000"

text \<open>
  \<^verbatim>\<open>getMaxTokensFromBlocks\<close> (lines 315 to 329): the body of the loop, then the loop from
  \<^verbatim>\<open>maxTokens = 0\<close>.
\<close>

definition max_tokens_step :: "session_block \<Rightarrow> nat \<Rightarrow> nat" where
  "max_tokens_step block maxTokens =
     (if \<not> isGap block \<and> \<not> isActive block then
        (let totalTokens = getTotalTokensFromBlock block
         in if totalTokens > maxTokens then totalTokens else maxTokens)
      else maxTokens)"

definition getMaxTokensFromBlocks :: "session_block list \<Rightarrow> nat" where
  "getMaxTokensFromBlocks blocks =
     (let maxTokens = fold max_tokens_step blocks 0
      in if maxTokens > 0 then maxTokens else 7000)"

text \<open>
  \<^verbatim>\<open>calculateHourlyBurnRate\<close> (lines 334 to 379). \<open>hourly_step\<close> is one round of the loop
  on the running \<^verbatim>\<open>totalTokens\<close> (here \<open>acc\<close>); each \<^verbatim>\<open>continue\<close> leaves it as it is.
\<close>

definition hourly_step :: "int \<Rightarrow> session_block \<Rightarrow> rat \<Rightarrow> rat" where
  "hourly_step now block acc =
     (let oneHourAgo = now - 60 * 60 * 1000 in
      if isGap block then acc
      else
        let start = startTime block;
            sessionEnd =
              (if isActive block then now
               else case actualEndTime block of Some e \<Rightarrow> e | None \<Rightarrow> endTime block)
        in if sessionEnd < oneHourAgo then acc
           else
             let sessionStartInHour = (if start > oneHourAgo then start else oneHourAgo);
                 sessionEndInHour = (if sessionEnd < now then sessionEnd else now)
             in if sessionEndInHour \<le> sessionStartInHour then acc
                else
                  let totalSessionDuration = of_int (sessionEnd - start) / (1000 * 60);
                      hourDuration =
                        of_int (sessionEndInHour - sessionStartInHour) / (1000 * 60)
                  in if totalSessionDuration > 0 then
                       (let blockTotalTokens = of_nat (getTotalTokensFromBlock block);
                            tokensInHour = blockTotalTokens * (hourDuration / totalSessionDuration)
                        in acc + tokensInHour)
                     else acc)"

definition calculateHourlyBurnRate :: "int \<Rightarrow> session_block list \<Rightarrow> rat" where
  "calculateHourlyBurnRate now blocks =
     (if blocks = [] then 0 else fold (hourly_step now) blocks 0 / 60)"

text \<open>
  \<^verbatim>\<open>calculateVelocityFromBlocks\<close> (lines 429 to 471). The token sums are whole numbers,
  exact in doubles below 2 to the power 53; every other operation is rounded. The burn
  rate times 60 is computed twice in the source, with the same result. \<^verbatim>\<open>Math.round\<close> is
  exact on a double. The burn rate that the source passes is a double, a rate \<open>r\<close> with
  \<open>fl r = r\<close>.
\<close>

definition calculateVelocityFromBlocks :: "int \<Rightarrow> session_block list \<Rightarrow> rat \<Rightarrow> velocity_info" where
  "calculateVelocityFromBlocks now blocks currentBurnRate =
     (let oneDayAgo = now - 24 * 60 * 60 * 1000;
          last24HourBlocks = filter (\<lambda>b. \<not> isGap b \<and> startTime b \<ge> oneDayAgo) blocks;
          tokens24h = fold (\<lambda>block t. t + getTotalTokensFromBlock block) last24HourBlocks 0;
          average24h = fl (of_nat tokens24h / 24);
          oneWeekAgo = now - 7 * 24 * 60 * 60 * 1000;
          last7DayBlocks = filter (\<lambda>b. \<not> isGap b \<and> startTime b \<ge> oneWeekAgo) blocks;
          tokens7d = fold (\<lambda>block t. t + getTotalTokensFromBlock block) last7DayBlocks 0;
          average7d = fl (of_nat tokens7d / (7 * 24));
          trendPercent =
            (if average24h > 0
             then fl (fl (fl (fl (currentBurnRate * 60) - average24h) / average24h) * 100)
             else 0);
          trend = (if \<bar>trendPercent\<bar> > 15
                   then (if trendPercent > 0 then increasing else decreasing)
                   else stable)
      in \<lparr>current = fl (currentBurnRate * 60),
          average24h = average24h,
          average7d = average7d,
          trend_of = trend,
          trendPercent = fl (of_int (js_round (fl (trendPercent * 10))) / 10),
          peakHour = 14,
          isAccelerating = (trend = increasing \<and> trendPercent > 20)\<rparr>)"

text \<open>
  \<^verbatim>\<open>convertBlocksToDailyUsage\<close> (lines 384 to 424). The \<^verbatim>\<open>Map\<close> is an association list in
  insertion order. \<open>add_model\<close> is one round of the inner loop, \<open>daily_step\<close> one round of
  the outer loop. The final sort compares the date strings; on the dates that
  \<^verbatim>\<open>toISOString\<close> prints for the years 0 to 9999, \<^verbatim>\<open>localeCompare\<close> is the order of the
  characters.
\<close>

definition add_model ::
  "nat \<Rightarrow> rat \<Rightarrow> nat \<Rightarrow> string \<Rightarrow> (string \<times> model_usage) list \<Rightarrow> (string \<times> model_usage) list" where
  "add_model blockTokens blockCost n model ms =
     (let cur = (case map_of ms model of None \<Rightarrow> \<lparr>tokens = 0, cost = 0\<rparr> | Some u \<Rightarrow> u);
          modelTokens = blockTokens div n;
          modelCost = blockCost / of_nat n
      in AList.update model \<lparr>tokens = tokens cur + modelTokens, cost = cost cur + modelCost\<rparr> ms)"

definition daily_step ::
  "session_block \<Rightarrow> (string \<times> daily_usage) list \<Rightarrow> (string \<times> daily_usage) list" where
  "daily_step block dailyMap =
     (if isGap block then dailyMap
      else
        let d = split_T_0 (toISOString (startTime block));
            daily =
              (case map_of dailyMap d of
                 None \<Rightarrow> \<lparr>date = d, totalTokens = 0, totalCost = 0, du_models = []\<rparr>
               | Some u \<Rightarrow> u);
            blockTokens = getTotalTokensFromBlock block;
            realModels = filter (\<lambda>m. m \<noteq> ''<synthetic>'') (models block)
        in AList.update d
             \<lparr>date = date daily,
              totalTokens = totalTokens daily + blockTokens,
              totalCost = totalCost daily + costUSD block,
              du_models =
                fold (add_model blockTokens (costUSD block) (length realModels)) realModels
                  (du_models daily)\<rparr>
             dailyMap)"

definition convertBlocksToDailyUsage :: "session_block list \<Rightarrow> daily_usage list" where
  "convertBlocksToDailyUsage blocks = sort_key date (map snd (fold daily_step blocks []))"

text \<open>\<^verbatim>\<open>convertSessionBlocksToCC\<close> (lines 283 to 297).\<close>

definition convertSessionBlocksToCC :: "session_block list \<Rightarrow> cc_usage_block list" where
  "convertSessionBlocksToCC blocks =
     map (\<lambda>block.
       \<lparr>cc_id = block_id block,
        cc_startTime = toISOString (startTime block),
        cc_endTime = toISOString (endTime block),
        cc_actualEndTime = map_option toISOString (actualEndTime block),
        cc_isActive = isActive block,
        cc_isGap = isGap block,
        cc_models = models block,
        cc_costUSD = costUSD block,
        cc_tokenCounts = tokenCounts block\<rparr>) blocks"

subsection \<open>Daily data\<close>

text \<open>\<^verbatim>\<open>getEmptyDailyUsage\<close> (lines 473 to 480).\<close>

definition getEmptyDailyUsage :: "int \<Rightarrow> daily_usage" where
  "getEmptyDailyUsage now =
     \<lparr>date = split_T_0 (toISOString now), totalTokens = 0, totalCost = 0, du_models = []\<rparr>"

text \<open>
  The conversion of the loader's daily entries, written twice in the source (lines 220 to
  238 and lines 611 to 629): the synthetic model is dropped, and a model named twice
  keeps its last breakdown.
\<close>

definition processDay :: "daily_data_entry \<Rightarrow> daily_usage" where
  "processDay day =
     \<lparr>date = de_date day,
      totalTokens = de_inputTokens day + de_outputTokens day + de_cacheCreationTokens day +
        de_cacheReadTokens day,
      totalCost = de_totalCost day,
      du_models =
        fold (\<lambda>mb acc.
               AList.update (modelName mb)
                 \<lparr>tokens = mb_inputTokens mb + mb_outputTokens mb + mb_cacheCreationTokens mb +
                    mb_cacheReadTokens mb,
                  cost = mb_cost mb\<rparr> acc)
          (filter (\<lambda>mb. modelName mb \<noteq> ''<synthetic>'') (modelBreakdowns day)) []\<rparr>"

text \<open>
  The filters of \<^verbatim>\<open>thisWeek\<close> and \<^verbatim>\<open>thisMonth\<close>: \<^verbatim>\<open>new Date(d.date) >= n days ago\<close>, which
  is false for an invalid date.
\<close>

definition within_days :: "('r, 't) environment \<Rightarrow> int \<Rightarrow> int \<Rightarrow> daily_usage \<Rightarrow> bool" where
  "within_days env now n d =
     (case dateParse env (date d) of None \<Rightarrow> False | Some t \<Rightarrow> t \<ge> daysBefore env now n)"

subsection \<open>The reset time of the active block\<close>

text \<open>\<^verbatim>\<open>getActualNextResetTime\<close> (lines 836 to 843).\<close>

definition getActualNextResetTime :: "('r, 't) service \<Rightarrow> int option" where
  "getActualNextResetTime sv =
     (case currentActiveBlock sv of None \<Rightarrow> None | Some b \<Rightarrow> Some (endTime b))"

text \<open>\<^verbatim>\<open>getTimeUntilActualReset\<close> (lines 848 to 886).\<close>

definition getTimeUntilActualReset :: "int \<Rightarrow> ('r, 't) service \<Rightarrow> actual_reset_info" where
  "getTimeUntilActualReset now sv =
     (case getActualNextResetTime sv of
        None \<Rightarrow>
          \<lparr>nextResetTime = None, timeUntilReset = 0,
           formattedTimeRemaining = ''No active session''\<rparr>
      | Some actualResetTime \<Rightarrow>
          let until = max 0 (actualResetTime - now);
              hours = until div (1000 * 60 * 60);
              minutes = (until mod (1000 * 60 * 60)) div (1000 * 60)
          in \<lparr>nextResetTime = Some actualResetTime,
              timeUntilReset = until,
              formattedTimeRemaining =
                (if until \<le> 0 then ''Reset available''
                 else if hours > 0 then
                   int_toString hours @ '' hours '' @ int_toString minutes @ '' minutes left''
                 else if minutes > 0 then int_toString minutes @ '' minutes left''
                 else ''Less than 1 minute left'')\<rparr>)"

subsection \<open>Prediction\<close>

text \<open>
  \<^verbatim>\<open>calculatePredictionInfo\<close> (lines 757 to 806). \<^verbatim>\<open>new Date(x).toISOString()\<close> throws a
  \<^verbatim>\<open>RangeError\<close> when \<open>x\<close> is beyond the largest time value; otherwise the date holds \<open>x\<close>
  truncated to an integer.
\<close>

definition calculatePredictionInfo ::
  "('r, 't) environment \<Rightarrow> int \<Rightarrow> nat \<Rightarrow> nat \<Rightarrow> velocity_info \<Rightarrow> 'r \<Rightarrow> js_error + prediction_info" where
  "calculatePredictionInfo env now used limit v ri =
     (let remaining = nat (max 0 (int limit - int used));
          confidence0 = (50 :: rat);
          confidence1 =
            (if current v > 0 \<and> average24h v > 0 then
               (let c = min 95 (confidence0 + 30)
                in if \<bar>trendPercent v\<bar> > 50 then c - 20 else c)
             else confidence0)
      in case
           (if current v > 0 then
              (let hoursRemaining = of_nat remaining / current v;
                   depletion = of_int now + hoursRemaining * 60 * 60 * 1000
               in if \<bar>depletion\<bar> > of_int max_time_value then Inl RangeError
                  else Inr (Some (toISOString (js_trunc depletion)), hoursRemaining / 24))
            else Inr (None, 0))
         of
           Inl e \<Rightarrow> Inl e
         | Inr (dt, days) \<Rightarrow>
             Inr \<lparr>depletionTime = dt,
                  confidence = js_round confidence1,
                  daysRemaining = of_int (js_round (days * 10)) / 10,
                  recommendedDailyLimit = calculateRecommendedDailyLimit env remaining ri,
                  onTrackForReset = isOnTrackForReset env used limit ri\<rparr>)"

subsection \<open>The default snapshot\<close>

text \<open>
  \<^verbatim>\<open>getDefaultStats\<close> (lines 603 to 685). It reads the fields of the service and writes
  none.
\<close>

definition getDefaultStats ::
  "('r, 't) environment \<Rightarrow> int \<Rightarrow> daily_data_entry list option \<Rightarrow> ('r, 't) service
     \<Rightarrow> ('r, 't) usage_stats" where
  "getDefaultStats env now dailyData sv =
     (let today_str = split_T_0 (toISOString now);
          processedDailyData =
            (case dailyData of
               None \<Rightarrow> []
             | Some dd \<Rightarrow> if length dd > 0 then map processDay dd else []);
          todayData =
            (case find (\<lambda>d. date d = today_str) processedDailyData of
               Some d \<Rightarrow> d
             | None \<Rightarrow> getEmptyDailyUsage now)
      in \<lparr>today = todayData,
          thisWeek = filter (within_days env now 7) processedDailyData,
          thisMonth = filter (within_days env now 30) processedDailyData,
          burnRate = 0,
          velocity =
            \<lparr>current = 0, average24h = 0, average7d = 0, trend_of = stable, trendPercent = 0,
             peakHour = 12, isAccelerating = False\<rparr>,
          prediction =
            \<lparr>depletionTime = None, confidence = 0, daysRemaining = 0,
             recommendedDailyLimit = 0, onTrackForReset = True\<rparr>,
          resetInfo = calculateResetInfo env,
          actualResetInfo = getTimeUntilActualReset now sv,
          predictedDepleted = None,
          stats_currentPlan = currentPlan sv,
          tokenLimit = getTokenLimit (currentPlan sv),
          tokensUsed = 0,
          tokensRemaining = getTokenLimit (currentPlan sv),
          percentageUsed = 0,
          sessionTracking = updateFromBlocks env []\<rparr>)"

subsection \<open>Recomputation\<close>

text \<open>
  The resolution of the plan and the limit (lines 190 to 199 of \<^verbatim>\<open>parseBlocksData\<close>), on
  the fields \<^verbatim>\<open>currentPlan\<close> and \<^verbatim>\<open>detectedTokenLimit\<close>.
\<close>

definition resolve_limit ::
  "session_block list \<Rightarrow> nat \<Rightarrow> ('r, 't) service \<Rightarrow> ('r, 't) service" where
  "resolve_limit blocks used sv =
     (if currentPlan sv = Custom \<or> (currentPlan sv = Pro \<and> used > 7000) then
        (let sv1 = sv\<lparr>detectedTokenLimit := getMaxTokensFromBlocks blocks\<rparr>
         in if used > 7000 \<and> currentPlan sv1 = Pro then sv1\<lparr>currentPlan := Custom\<rparr> else sv1)
      else sv\<lparr>detectedTokenLimit := getTokenLimit (currentPlan sv)\<rparr>)"

text \<open>
  \<^verbatim>\<open>parseBlocksData\<close> (lines 174 to 278). The result is the snapshot, or the exception of
  \<^verbatim>\<open>calculatePredictionInfo\<close>, together with the service as the call leaves it: the
  fields written before the exception stay written.
\<close>

definition parseBlocksData ::
  "('r, 't) environment \<Rightarrow> int \<Rightarrow> session_block list \<Rightarrow> daily_data_entry list option
     \<Rightarrow> ('r, 't) service \<Rightarrow> (js_error + ('r, 't) usage_stats) \<times> ('r, 't) service" where
  "parseBlocksData env now blocks dailyData sv =
     (case find (\<lambda>block. isActive block \<and> \<not> isGap block) blocks of
        None \<Rightarrow>
          (let sv1 = sv\<lparr>currentActiveBlock := None\<rparr>
           in (Inr (getDefaultStats env now dailyData sv1), sv1))
      | Some activeBlock \<Rightarrow>
          (let sv1 = sv\<lparr>currentActiveBlock := Some activeBlock\<rparr>;
               used = getTotalTokensFromBlock activeBlock;
               sv2 = resolve_limit blocks used sv1;
               limit = detectedTokenLimit sv2;
               rate = calculateHourlyBurnRate now blocks;
               v = calculateVelocityFromBlocks now blocks rate;
               ri = calculateResetInfo env
           in case calculatePredictionInfo env now used limit v ri of
                Inl e \<Rightarrow> (Inl e, sv2)
              | Inr p \<Rightarrow>
                  (let tracking = updateFromBlocks env (convertSessionBlocksToCC blocks);
                       processedDailyData =
                         (case dailyData of
                            Some dd \<Rightarrow> map processDay dd
                          | None \<Rightarrow> convertBlocksToDailyUsage blocks);
                       todayStr = split_T_0 (toISOStringLocal env now);
                       todayData =
                         (case find (\<lambda>d. date d = todayStr) processedDailyData of
                            Some d \<Rightarrow> d
                          | None \<Rightarrow> getEmptyDailyUsage now)
                   in (Inr \<lparr>today = todayData,
                            thisWeek = filter (within_days env now 7) processedDailyData,
                            thisMonth = filter (within_days env now 30) processedDailyData,
                            burnRate = rate,
                            velocity = v,
                            prediction = p,
                            resetInfo = ri,
                            actualResetInfo = getTimeUntilActualReset now sv2,
                            predictedDepleted = depletionTime p,
                            stats_currentPlan = currentPlan sv2,
                            tokenLimit = limit,
                            tokensUsed = used,
                            tokensRemaining = nat (max 0 (int limit - int used)),
                            percentageUsed = min 100 ((of_nat used / of_nat limit) * 100),
                            sessionTracking = tracking\<rparr>,
                       sv2))))"

subsection \<open>The public methods\<close>

text \<open>
  \<^verbatim>\<open>getUsageStats\<close> (lines 132 to 169). \<open>loaded\<close> is what the two loaders answer if
  they are called. The result is the snapshot, the service after the call, and the number
  of times the loaders were called. \<open>fetch_and_compute\<close> is the \<^verbatim>\<open>try\<close> block with its
  \<^verbatim>\<open>catch\<close> (lines 140 to 168).
\<close>

definition fetch_and_compute ::
  "('r, 't) environment \<Rightarrow> int \<Rightarrow> loader_result \<Rightarrow> ('r, 't) service
     \<Rightarrow> ('r, 't) usage_stats \<times> ('r, 't) service \<times> nat" where
  "fetch_and_compute env now loaded sv =
     (case loaded of
        Inl e \<Rightarrow> (getDefaultStats env now None sv, sv, 1)
      | Inr (blocks, dailyData) \<Rightarrow>
          (case blocks of
             None \<Rightarrow> (getDefaultStats env now dailyData sv, sv, 1)
           | Some bs \<Rightarrow>
               if length bs = 0 then (getDefaultStats env now dailyData sv, sv, 1)
               else
                 (case parseBlocksData env now bs dailyData sv of
                    (Inl e, sv1) \<Rightarrow> (getDefaultStats env now None sv1, sv1, 1)
                  | (Inr stats, sv1) \<Rightarrow>
                      (stats,
                       sv1\<lparr>cachedStats := Some stats, lastUpdate := now,
                           historicalBlocks := bs\<rparr>,
                       1))))"

definition getUsageStats ::
  "('r, 't) environment \<Rightarrow> int \<Rightarrow> loader_result \<Rightarrow> ('r, 't) service
     \<Rightarrow> ('r, 't) usage_stats \<times> ('r, 't) service \<times> nat" where
  "getUsageStats env now loaded sv =
     (case cachedStats sv of
        Some s \<Rightarrow>
          if now - lastUpdate sv < CACHE_DURATION then (s, sv, 0)
          else fetch_and_compute env now loaded sv
      | None \<Rightarrow> fetch_and_compute env now loaded sv)"

text \<open>The test of line 136: a snapshot is cached and younger than the cache duration.\<close>

definition cache_fresh :: "int \<Rightarrow> ('r, 't) service \<Rightarrow> bool" where
  "cache_fresh now sv = (cachedStats sv \<noteq> None \<and> now - lastUpdate sv < CACHE_DURATION)"

text \<open>
  \<^verbatim>\<open>updateConfiguration\<close> (lines 123 to 130). The call it forwards to the reset-time
  service changes that service only; the environment of a later call stands for it.
\<close>

definition updateConfiguration :: "user_configuration \<Rightarrow> ('r, 't) service \<Rightarrow> ('r, 't) service" where
  "updateConfiguration config sv =
     (let sv1 =
            (case cfg_plan config of
               Some p \<Rightarrow> sv\<lparr>currentPlan := (case p of Auto \<Rightarrow> Custom | Plan q \<Rightarrow> q)\<rparr>
             | None \<Rightarrow> sv)
      in sv1\<lparr>cachedStats := None\<rparr>)"

subsection \<open>An environment to run the model in\<close>

text \<open>
  A platform in the time zone UTC, where a day earlier is 24 hours earlier. Its
  \<open>dateParse\<close> reads the dates \<^verbatim>\<open>YYYY-MM-DD\<close> of the calendar, which every engine reads as
  midnight UTC, and calls every other string invalid.
\<close>

definition days_from_civil :: "int \<Rightarrow> int \<Rightarrow> int \<Rightarrow> int" where
  "days_from_civil y m d =
     (let y1 = (if m \<le> 2 then y - 1 else y);
          era = y1 div 400;
          yoe = y1 - era * 400;
          mp = (m + 9) mod 12;
          doy = (153 * mp + 2) div 5 + d - 1;
          doe = yoe * 365 + yoe div 4 - yoe div 100 + doy
      in era * 146097 + doe - 719468)"

definition digit_val :: "char \<Rightarrow> nat option" where
  "digit_val c =
     (let n = (of_char c :: nat) in if 48 \<le> n \<and> n \<le> 57 then Some (n - 48) else None)"

fun parse_digits :: "nat \<Rightarrow> string \<Rightarrow> nat option" where
  "parse_digits acc [] = Some acc"
| "parse_digits acc (c # cs) =
     (case digit_val c of None \<Rightarrow> None | Some d \<Rightarrow> parse_digits (10 * acc + d) cs)"

definition parse_iso_date :: "string \<Rightarrow> int option" where
  "parse_iso_date s =
     (if length s = 10 \<and> s ! 4 = CHR ''-'' \<and> s ! 7 = CHR ''-'' then
        (case (parse_digits 0 (take 4 s), parse_digits 0 (take 2 (drop 5 s)),
               parse_digits 0 (drop 8 s)) of
           (Some y, Some m, Some d) \<Rightarrow>
             (let t = days_from_civil (int y) (int m) (int d) * ms_per_day
              in if split_T_0 (toISOString t) = s then Some t else None)
         | _ \<Rightarrow> None)
      else None)"

text \<open>
  The collaborators of this environment answer with the simplest values of their types:
  no reset information, a daily limit equal to what remains, on track while the usage is
  within the limit, and the list of block identifiers as the session tracking.
\<close>

definition utc_environment :: "(unit, string list) environment" where
  "utc_environment =
     \<lparr>timezoneOffset = (\<lambda>d. 0),
      dateParse = parse_iso_date,
      daysBefore = (\<lambda>d n. d - n * ms_per_day),
      calculateResetInfo = (),
      calculateRecommendedDailyLimit = (\<lambda>remaining ri. of_nat remaining),
      isOnTrackForReset = (\<lambda>used limit ri. used \<le> limit),
      updateFromBlocks = map cc_id\<rparr>"

text \<open>
  Blocks to run it on. The clock stands at \<open>t0\<close>, 2023-11-14 22:13:20 UTC.
  \<open>mk_block name start fin act_end active gap n\<close> is a block of \<open>n\<close> input tokens.
\<close>

definition t0 :: int where
  "t0 = 1700000000000"

definition minute :: int where
  "minute = 60000"

definition mk_block ::
  "string \<Rightarrow> int \<Rightarrow> int \<Rightarrow> int option \<Rightarrow> bool \<Rightarrow> bool \<Rightarrow> nat \<Rightarrow> session_block" where
  "mk_block name start fin act_end active gap n =
     \<lparr>block_id = name, startTime = start, endTime = fin, actualEndTime = act_end,
      isActive = active, isGap = gap,
      tokenCounts = \<lparr>inputTokens = n, outputTokens = 0, cacheCreationInputTokens = 0,
                     cacheReadInputTokens = 0\<rparr>,
      costUSD = 0, models = [''claude-sonnet-4'']\<rparr>"

text \<open>An active block that began one minute ago, with \<open>n\<close> tokens.\<close>

definition active_block :: "nat \<Rightarrow> session_block" where
  "active_block n = mk_block ''active'' (t0 - minute) (t0 + 299 * minute) None True False n"

text \<open>A block of \<open>n\<close> tokens that ran for two hours and closed thirty minutes into the trailing hour.\<close>

definition closed_block :: "nat \<Rightarrow> session_block" where
  "closed_block n =
     mk_block ''closed'' (t0 - 150 * minute) (t0 + 150 * minute) (Some (t0 - 30 * minute))
       False False n"

text \<open>A gap block over the day before.\<close>

definition gap_block :: session_block where
  "gap_block = mk_block ''gap'' (t0 - 1500 * minute) (t0 - 1200 * minute) None False True 0"

text \<open>A block of \<open>n\<close> tokens that ran from ten hours ago to five hours ago.\<close>

definition earlier_block :: "nat \<Rightarrow> session_block" where
  "earlier_block n =
     mk_block ''earlier'' (t0 - 600 * minute) (t0 - 300 * minute) None False False n"

text \<open>A configuration that sets the plan field at most.\<close>

definition config_with_plan :: "plan_choice option \<Rightarrow> user_configuration" where
  "config_with_plan p =
     \<lparr>cfg_timezone = None, cfg_resetHour = None, cfg_plan = p, cfg_customTokenLimit = None\<rparr>"

text \<open>A service that holds a snapshot cached at \<open>t0\<close>.\<close>

definition cached_service :: "(unit, string list) service" where
  "cached_service =
     initial_service\<lparr>cachedStats := Some (getDefaultStats utc_environment t0 None initial_service),
       lastUpdate := t0\<rparr>"

subsection \<open>The specification's words\<close>

text \<open>The total tokens of the historical blocks: those that are neither gaps nor active.\<close>

definition historical_totals :: "session_block list \<Rightarrow> nat list" where
  "historical_totals blocks =
     map getTotalTokensFromBlock (filter (\<lambda>b. \<not> isGap b \<and> \<not> isActive b) blocks)"

text \<open>
  The effective limit as the specification words it: under the plan \<open>Custom\<close>, or under
  \<open>Pro\<close> with more than 7000 tokens used, the maximum over the historical blocks, and
  7000 when there is no such block; otherwise the threshold of the plan.
\<close>

definition spec_effective_limit :: "plan \<Rightarrow> nat \<Rightarrow> session_block list \<Rightarrow> nat" where
  "spec_effective_limit p used blocks =
     (if p = Custom \<or> (p = Pro \<and> used > 7000) then
        (if historical_totals blocks = [] then 7000 else Max (set (historical_totals blocks)))
      else getTokenLimit p)"

text \<open>
  The hourly burn rate as the specification words it. The effective end of a block is
  now when it is active, its actual end when it closed early, and its nominal end
  otherwise. Its overlap with the trailing hour is counted in milliseconds. A block whose
  overlap is empty brings nothing; another brings its tokens times the ratio of the
  overlap to its whole duration, both in minutes. The rate is the sum over the blocks
  that are not gaps and that did not end before the trailing hour, divided by 60.
\<close>

definition effective_end :: "int \<Rightarrow> session_block \<Rightarrow> int" where
  "effective_end now b =
     (if isActive b then now
      else case actualEndTime b of Some e \<Rightarrow> e | None \<Rightarrow> endTime b)"

definition overlap_ms :: "int \<Rightarrow> session_block \<Rightarrow> int" where
  "overlap_ms now b = min (effective_end now b) now - max (startTime b) (now - 3600000)"

definition apportioned :: "int \<Rightarrow> session_block \<Rightarrow> rat" where
  "apportioned now b =
     (if overlap_ms now b \<le> 0 then 0
      else of_nat (getTotalTokensFromBlock b) *
           ((of_int (overlap_ms now b) / 60000) /
            (of_int (effective_end now b - startTime b) / 60000)))"

definition spec_hourly_burn_rate :: "int \<Rightarrow> session_block list \<Rightarrow> rat" where
  "spec_hourly_burn_rate now bs =
     sum_list (map (apportioned now)
       (filter (\<lambda>b. \<not> isGap b \<and> \<not> effective_end now b < now - 3600000) bs)) / 60"

text \<open>
  The velocity as the specification words it: the tokens of the blocks that are not gaps
  and start within a window before now; and the trend percentage of a current hourly rate
  against an average, which is 0 when the average is 0.
\<close>

definition tokens_since :: "int \<Rightarrow> int \<Rightarrow> session_block list \<Rightarrow> nat" where
  "tokens_since now window bs =
     sum_list (map getTotalTokensFromBlock
       (filter (\<lambda>b. \<not> isGap b \<and> startTime b \<ge> now - window) bs))"

definition spec_trend_percent :: "rat \<Rightarrow> rat \<Rightarrow> rat" where
  "spec_trend_percent cur avg = (if avg = 0 then 0 else ((cur - avg) / avg) * 100)"

text \<open>The same formula with the result of each of its three operations rounded to a double.\<close>

definition trend_percent_in_doubles :: "rat \<Rightarrow> rat \<Rightarrow> rat" where
  "trend_percent_in_doubles cur avg =
     (if avg = 0 then 0 else fl (fl (fl (cur - avg) / avg) * 100))"

text \<open>
  The confidence as the specification words it: from 50, plus 30 when both rates are
  positive, minus 20 when the magnitude of the trend percentage is above 50, clamped to
  the range from 0 to 95.
\<close>

definition spec_confidence :: "velocity_info \<Rightarrow> int" where
  "spec_confidence v =
     max 0 (min 95
       (50 + (if current v > 0 \<and> average24h v > 0 then 30 else 0)
           - (if \<bar>trendPercent v\<bar> > 50 then 20 else 0)))"

section \<open>Properties\<close>

subsection \<open>Rounding to doubles\<close>

lemma pow2_powi: "pow2 k = 2 powi k"
  by (simp add: pow2_def power_int_def inverse_eq_divide power_one_over)

lemma pow2_pos [simp]: "0 < pow2 k"
  by (simp add: pow2_powi)

lemma pow2_add: "pow2 (j + k) = pow2 j * pow2 k"
  by (simp add: pow2_powi power_int_add)

lemma pow2_neq_0 [simp]: "pow2 k \<noteq> 0"
  using pow2_pos [of k] by linarith

lemma pow2_diff: "pow2 (j - k) = pow2 j / pow2 k"
  using pow2_add [of "j - k" k] by (simp add: field_simps)

lemma pow2_less: "j < k \<Longrightarrow> pow2 j < pow2 k"
  by (simp add: pow2_powi power_int_strict_increasing)

lemma pow2_less_iff: "pow2 j < pow2 k \<longleftrightarrow> j < k"
  using pow2_less [of j k] pow2_less [of k j] by (cases j k rule: linorder_cases) auto

lemma pow2_of_int: "0 \<le> k \<Longrightarrow> pow2 k = of_int (2 ^ nat k)"
  by (simp add: pow2_def)

lemma round_half_even_error: "\<bar>of_int (round_half_even m) - m\<bar> \<le> 1 / 2"
proof -
  have "of_int \<lfloor>m\<rfloor> \<le> m" "m < of_int \<lfloor>m\<rfloor> + 1" by linarith+
  then show ?thesis
    by (auto simp: round_half_even_def Let_def abs_le_iff)
qed

lemma round_half_even_nonneg: "0 \<le> m \<Longrightarrow> 0 \<le> round_half_even m"
  by (auto simp: round_half_even_def Let_def intro: add_nonneg_nonneg)

lemma fl_0 [simp]: "fl 0 = 0"
  by (simp add: fl_def)

lemma fl_nonneg: "0 \<le> x \<Longrightarrow> 0 \<le> fl x"
  by (auto simp: fl_def Let_def less_imp_le intro!: mult_nonneg_nonneg round_half_even_nonneg)

lemma bitlen_pow2_bounds:
  assumes "0 < p"
  shows "pow2 (bitlen p - 1) \<le> of_int p" and "of_int p < pow2 (bitlen p)"
proof -
  from assms have b: "1 \<le> bitlen p"
    using bitlen_eq_zero_iff [of p] bitlen_nonneg [of p] by linarith
  from bitlen_bounds [OF assms]
  have "(2::int) ^ nat (bitlen p - 1) \<le> p" and "p < 2 ^ nat (bitlen p)" by simp_all
  then have "(of_int (2 ^ nat (bitlen p - 1)) :: rat) \<le> of_int p"
    and "(of_int p :: rat) < of_int (2 ^ nat (bitlen p))"
    by (simp_all only: of_int_le_iff of_int_less_iff)
  with b show "pow2 (bitlen p - 1) \<le> of_int p" and "of_int p < pow2 (bitlen p)"
    by (simp_all add: pow2_of_int)
qed

lemma ilog2_bounds:
  assumes "0 < x"
  shows "pow2 (ilog2 x) \<le> x" and "x < pow2 (ilog2 x + 1)"
proof -
  obtain p q where pq: "quotient_of x = (p, q)" by (cases "quotient_of x")
  then have q: "0 < q" by (rule quotient_of_denom_pos)
  from pq have x: "x = of_int p / of_int q" by (rule quotient_of_div)
  with assms q have p: "0 < p" by (simp add: zero_less_divide_iff)
  define d where "d = bitlen p - bitlen q"
  note P = bitlen_pow2_bounds [OF p] and Q = bitlen_pow2_bounds [OF q]
  have qpos: "(0::rat) < of_int q" and ppos: "(0::rat) < of_int p" using p q by simp_all
  have "x < pow2 (bitlen p) / pow2 (bitlen q - 1)"
    unfolding x using P(2) Q(1) qpos ppos
    by (intro frac_less) (simp_all add: less_imp_le)
  then have up: "x < pow2 (d + 1)"
    by (simp add: d_def pow2_diff [symmetric] algebra_simps)
  have "pow2 (bitlen p - 1) / pow2 (bitlen q) < x"
    unfolding x using P(1) Q(2) qpos ppos
    by (intro frac_less2) (simp_all add: less_imp_le)
  then have lo: "pow2 (d - 1) < x"
    by (simp add: d_def pow2_diff [symmetric] algebra_simps)
  have il: "ilog2 x = (if pow2 d \<le> x then d else d - 1)"
    by (simp add: ilog2_def pq d_def Let_def)
  show "pow2 (ilog2 x) \<le> x" using lo by (simp add: il less_imp_le)
  show "x < pow2 (ilog2 x + 1)" using up by (simp add: il not_le)
qed

lemma fl_error:
  assumes "pow2 (- 1022) \<le> \<bar>x\<bar>"
  shows "\<bar>fl x - x\<bar> \<le> \<bar>x\<bar> / 2 ^ 53"
proof -
  from assms have pos: "0 < \<bar>x\<bar>" using pow2_pos [of "- 1022"] by linarith
  then have nz: "x \<noteq> 0" by simp
  define e where "e = ilog2 \<bar>x\<bar>"
  define q where "q = pow2 (e - 52)"
  define n where "n = round_half_even (\<bar>x\<bar> / q)"
  note B = ilog2_bounds [OF pos, folded e_def]
  from assms B(2) have "pow2 (- 1022) < pow2 (e + 1)" by linarith
  then have e: "- 1022 \<le> e" by (simp add: pow2_less_iff)
  have qpos: "0 < q" by (simp add: q_def)
  have fl: "fl x = sgn x * of_int n * q"
    using nz e by (simp add: fl_def Let_def e_def [symmetric] q_def n_def max_def)
  have "\<bar>fl x - x\<bar> = \<bar>of_int n * q - \<bar>x\<bar>\<bar>"
  proof (cases "0 < x")
    case True
    then show ?thesis by (simp add: fl)
  next
    case False
    with nz have "x < 0" by simp
    then have "fl x - x = - (of_int n * q - \<bar>x\<bar>)" by (simp add: fl)
    then show ?thesis by (simp only: abs_minus)
  qed
  also have "of_int n * q - \<bar>x\<bar> = (of_int n - \<bar>x\<bar> / q) * q"
    using qpos by (simp add: left_diff_distrib)
  also have "\<bar>(of_int n - \<bar>x\<bar> / q) * q\<bar> = \<bar>of_int n - \<bar>x\<bar> / q\<bar> * q"
    using qpos by (simp add: abs_mult)
  also have "\<dots> \<le> (1 / 2) * q"
    using round_half_even_error [of "\<bar>x\<bar> / q"] qpos
    by (intro mult_right_mono) (simp_all add: n_def)
  also have "(1 / 2) * q = pow2 e / 2 ^ 53"
  proof -
    have "pow2 52 = 2 ^ 52" by (simp add: pow2_def)
    then show ?thesis by (simp add: q_def pow2_diff)
  qed
  also have "\<dots> \<le> \<bar>x\<bar> / 2 ^ 53"
    using B(1) by (simp add: divide_right_mono)
  finally show ?thesis .
qed


lemma fl_close:
  assumes "1 / 1000 \<le> x"
  shows "x * (99 / 100) \<le> fl x" and "fl x \<le> x * (101 / 100)"
proof -
  have "pow2 (- 1022) \<le> pow2 (- 10)"
    using pow2_less [of "- 1022" "- 10"] by simp
  also have "pow2 (- 10) \<le> 1 / 1000" by (simp add: pow2_def)
  finally have "pow2 (- 1022) \<le> \<bar>x\<bar>" using assms by simp
  from fl_error [OF this] assms have "\<bar>fl x - x\<bar> \<le> x / 2 ^ 53" by simp
  also have "x / 2 ^ 53 \<le> x / 100" using assms by (simp add: field_simps)
  finally have "\<bar>fl x - x\<bar> \<le> x / 100" .
  then show "x * (99 / 100) \<le> fl x" and "fl x \<le> x * (101 / 100)"
    by linarith+
qed

lemma trend_in_doubles_ratio:
  assumes a: "1 / 25 \<le> a" and k: "1 / 10 \<le> k" "k \<le> 1"
  shows "k * 97 \<le> trend_percent_in_doubles (a * (1 + k)) a"
    and "trend_percent_in_doubles (a * (1 + k)) a \<le> k * 105"
proof -
  from a have apos: "0 < a" by simp
  define d where "d = fl (a * (1 + k) - a)"
  define y where "y = fl (d / a)"
  have diff: "a * (1 + k) - a = a * k" by (simp add: algebra_simps)
  have "1 / 1000 \<le> a * k"
  proof -
    have "(1 / 25) * (1 / 10) \<le> a * k" using a k by (intro mult_mono) simp_all
    then show ?thesis by simp
  qed
  from fl_close [OF this] have d: "a * k * (99 / 100) \<le> d" "d \<le> a * k * (101 / 100)"
    by (simp_all add: d_def diff)
  define r where "r = d / a"
  from d apos have da: "k * (99 / 100) \<le> r" "r \<le> k * (101 / 100)"
    by (simp_all add: r_def field_simps)
  with k have "1 / 1000 \<le> r" by linarith
  from fl_close [OF this] have y: "r * (99 / 100) \<le> y" "y \<le> r * (101 / 100)"
    by (simp_all add: y_def r_def)
  with da have yk: "k * (98 / 100) \<le> y" "y \<le> k * (103 / 100)" by linarith+
  with k have "1 / 1000 \<le> y * 100" by linarith
  from fl_close [OF this] have "y * 100 * (99 / 100) \<le> fl (y * 100)"
    "fl (y * 100) \<le> y * 100 * (101 / 100)" by simp_all
  with yk have "k * 97 \<le> fl (y * 100)" "fl (y * 100) \<le> k * 105" by linarith+
  moreover have "trend_percent_in_doubles (a * (1 + k)) a = fl (y * 100)"
    using apos by (simp add: trend_percent_in_doubles_def y_def d_def)
  ultimately show "k * 97 \<le> trend_percent_in_doubles (a * (1 + k)) a"
    and "trend_percent_in_doubles (a * (1 + k)) a \<le> k * 105" by simp_all
qed

lemma fl_average_bound:
  assumes "0 < fl (of_nat S / 24)"
  shows "1 / 25 \<le> fl (of_nat S / 24)"
proof -
  from assms have "S \<noteq> 0" by (cases "S = 0") simp_all
  then have "1 \<le> (of_nat S :: rat)" by (simp add: Suc_le_eq)
  then have s: "1 / 24 \<le> (of_nat S / 24 :: rat)" by simp
  then have "1 / 1000 \<le> (of_nat S / 24 :: rat)" by simp
  from fl_close(1) [OF this] s show ?thesis by simp
qed

lemma fl_known:
  "fl (1 / 10) = 3602879701896397 / 36028797018963968"
  "fl (1 / 3) = 6004799503160661 / 18014398509481984"
  "fl 9007199254740993 = 9007199254740992"
  "fl 9007199254740995 = 9007199254740996"
  by code_simp+

lemma fl_samples [simp]: "fl 3 = 3" "fl 100 = 100" "fl 9750 = 9750" "fl 7500 = 7500"
  by code_simp+

subsection \<open>The calendar on known dates\<close>

lemma toISOString_known:
  "toISOString 0 = ''1970-01-01T00:00:00.000Z''"
  "toISOString 1700000000000 = ''2023-11-14T22:13:20.000Z''"
  "toISOString 951782400000 = ''2000-02-29T00:00:00.000Z''"
  "toISOString (- 1) = ''1969-12-31T23:59:59.999Z''"
  by code_simp+

lemma toISOStringLocal_known:
  "split_T_0 (toISOStringLocal (utc_environment\<lparr>timezoneOffset := (\<lambda>d. - 330)\<rparr>) 1700000000000) =
     ''2023-11-15''"
  by code_simp

lemma parse_iso_date_known:
  "parse_iso_date ''2023-11-14'' = Some 1699920000000"
  "parse_iso_date ''2023-02-30'' = None"
  by code_simp+

subsection \<open>Gap blocks\<close>

lemma fold_skip_gaps:
  assumes "\<And>b acc. isGap b \<Longrightarrow> f b acc = acc"
  shows "fold f (filter (\<lambda>b. \<not> isGap b) bs) acc = fold f bs acc"
  by (induction bs arbitrary: acc) (simp_all add: assms)

lemma max_tokens_step_gap: "isGap b \<Longrightarrow> max_tokens_step b m = m"
  by (simp add: max_tokens_step_def)

lemma hourly_step_gap: "isGap b \<Longrightarrow> hourly_step now b acc = acc"
  by (simp add: hourly_step_def)

lemma daily_step_gap: "isGap b \<Longrightarrow> daily_step b m = m"
  by (simp add: daily_step_def)

lemma filter_gaps_window:
  "filter (\<lambda>b. \<not> isGap b \<and> P b) (filter (\<lambda>b. \<not> isGap b) bs) =
   filter (\<lambda>b. \<not> isGap b \<and> P b) bs"
  by (induction bs) simp_all

lemma getMaxTokensFromBlocks_gaps:
  "getMaxTokensFromBlocks (filter (\<lambda>b. \<not> isGap b) bs) = getMaxTokensFromBlocks bs"
  by (simp add: getMaxTokensFromBlocks_def fold_skip_gaps [OF max_tokens_step_gap])

lemma convertBlocksToDailyUsage_gaps:
  "convertBlocksToDailyUsage (filter (\<lambda>b. \<not> isGap b) bs) = convertBlocksToDailyUsage bs"
  by (simp add: convertBlocksToDailyUsage_def fold_skip_gaps [OF daily_step_gap])

lemma calculateVelocityFromBlocks_gaps:
  "calculateVelocityFromBlocks now (filter (\<lambda>b. \<not> isGap b) bs) r =
   calculateVelocityFromBlocks now bs r"
  unfolding calculateVelocityFromBlocks_def filter_gaps_window ..

lemma calculateHourlyBurnRate_gaps:
  "calculateHourlyBurnRate now (filter (\<lambda>b. \<not> isGap b) bs) = calculateHourlyBurnRate now bs"
proof -
  have eq: "fold (hourly_step now) (filter (\<lambda>b. \<not> isGap b) bs) 0 = fold (hourly_step now) bs 0"
    by (rule fold_skip_gaps [OF hourly_step_gap])
  show ?thesis
  proof (cases "filter (\<lambda>b. \<not> isGap b) bs = []")
    case True
    with eq have "fold (hourly_step now) bs 0 = 0" by simp
    with True show ?thesis by (simp add: calculateHourlyBurnRate_def)
  next
    case False
    then have "bs \<noteq> []" by auto
    with False eq show ?thesis by (simp add: calculateHourlyBurnRate_def)
  qed
qed

text \<open>
  Claim C10. Gap blocks contribute to no aggregate: taking every gap block out of a block
  list changes neither the hourly burn rate, nor the velocity (its 24-hour and 7-day
  totals with it), nor the fold of the blocks into daily usage (tokens, cost and models),
  nor the historical maximum that sets the detected limit.
\<close>

theorem gap_blocks_contribute_nothing:
  "calculateHourlyBurnRate now (filter (\<lambda>b. \<not> isGap b) bs) = calculateHourlyBurnRate now bs \<and>
   calculateVelocityFromBlocks now (filter (\<lambda>b. \<not> isGap b) bs) r =
     calculateVelocityFromBlocks now bs r \<and>
   convertBlocksToDailyUsage (filter (\<lambda>b. \<not> isGap b) bs) = convertBlocksToDailyUsage bs \<and>
   getMaxTokensFromBlocks (filter (\<lambda>b. \<not> isGap b) bs) = getMaxTokensFromBlocks bs"
  by (simp only: calculateHourlyBurnRate_gaps calculateVelocityFromBlocks_gaps
      convertBlocksToDailyUsage_gaps getMaxTokensFromBlocks_gaps)

subsection \<open>The cache\<close>

lemma getUsageStats_cached:
  "cachedStats sv = Some s \<Longrightarrow> now - lastUpdate sv < CACHE_DURATION \<Longrightarrow>
   getUsageStats env now loaded sv = (s, sv, 0)"
  by (simp add: getUsageStats_def)

lemma fetch_and_compute_calls: "snd (snd (fetch_and_compute env now loaded sv)) = 1"
  by (auto simp: fetch_and_compute_def split: option.splits sum.splits prod.splits)

lemma getUsageStats_calls:
  "snd (snd (getUsageStats env now loaded sv)) = (if cache_fresh now sv then 0 else 1)"
  by (auto simp: getUsageStats_def cache_fresh_def fetch_and_compute_calls split: option.splits)

lemma getUsageStats_rejected:
  "\<not> cache_fresh now sv \<Longrightarrow>
   getUsageStats env now (Inl e) sv = (getDefaultStats env now None sv, sv, 1)"
  by (auto simp: getUsageStats_def fetch_and_compute_def cache_fresh_def split: option.splits)

lemma getUsageStats_no_blocks:
  "\<not> cache_fresh now sv \<Longrightarrow>
   getUsageStats env now (Inr (Some [], dd)) sv = (getDefaultStats env now dd sv, sv, 1)"
  by (auto simp: getUsageStats_def fetch_and_compute_def cache_fresh_def split: option.splits)

lemma getUsageStats_computed:
  "\<not> cache_fresh now sv \<Longrightarrow> bs \<noteq> [] \<Longrightarrow> parseBlocksData env now bs dd sv = (Inr s, sv1) \<Longrightarrow>
   getUsageStats env now (Inr (Some bs, dd)) sv =
     (s, sv1\<lparr>cachedStats := Some s, lastUpdate := now, historicalBlocks := bs\<rparr>, 1)"
  by (auto simp: getUsageStats_def fetch_and_compute_def cache_fresh_def split: option.splits)

lemma initial_not_fresh: "\<not> cache_fresh now initial_service"
  by (simp add: cache_fresh_def initial_service_def)

subsection \<open>The default snapshot\<close>

lemma getDefaultStats_fields:
  "tokensUsed (getDefaultStats env now dd sv) = 0"
  "percentageUsed (getDefaultStats env now dd sv) = 0"
  "onTrackForReset (prediction (getDefaultStats env now dd sv))"
  "actualResetInfo (getDefaultStats env now dd sv) = getTimeUntilActualReset now sv"
  "thisWeek (getDefaultStats env now None sv) = []"
  "thisMonth (getDefaultStats env now None sv) = []"
  by (simp_all add: getDefaultStats_def Let_def)

text \<open>
  Claim C1. When \<^verbatim>\<open>getUsageStats\<close> calls the loaders and their call rejects, it returns
  (it does not throw) the default snapshot, and leaves the service as it was: the tokens
  used and the percentage used are 0, the weekly and monthly histories are empty, and the
  prediction is on track for the reset.
\<close>

theorem loader_rejection_gives_default:
  assumes "snd (snd (getUsageStats env now (Inl e) sv)) = 1"
  shows "getUsageStats env now (Inl e) sv = (getDefaultStats env now None sv, sv, 1) \<and>
         tokensUsed (fst (getUsageStats env now (Inl e) sv)) = 0 \<and>
         percentageUsed (fst (getUsageStats env now (Inl e) sv)) = 0 \<and>
         thisWeek (fst (getUsageStats env now (Inl e) sv)) = [] \<and>
         thisMonth (fst (getUsageStats env now (Inl e) sv)) = [] \<and>
         onTrackForReset (prediction (fst (getUsageStats env now (Inl e) sv)))"
proof -
  from assms have "\<not> cache_fresh now sv"
    by (simp add: getUsageStats_calls split: if_splits)
  then have "getUsageStats env now (Inl e) sv = (getDefaultStats env now None sv, sv, 1)"
    by (rule getUsageStats_rejected)
  then show ?thesis by (simp add: getDefaultStats_fields)
qed

theorem loader_rejection_gives_default_witness:
  "snd (snd (getUsageStats utc_environment t0 (Inl (LoaderRejected ''ENOENT'')) initial_service)) = 1 \<and>
   tokensUsed (fst (getUsageStats utc_environment t0 (Inl (LoaderRejected ''ENOENT'')) initial_service)) = 0 \<and>
   percentageUsed (fst (getUsageStats utc_environment t0 (Inl (LoaderRejected ''ENOENT'')) initial_service)) = 0 \<and>
   thisWeek (fst (getUsageStats utc_environment t0 (Inl (LoaderRejected ''ENOENT'')) initial_service)) = [] \<and>
   thisMonth (fst (getUsageStats utc_environment t0 (Inl (LoaderRejected ''ENOENT'')) initial_service)) = [] \<and>
   onTrackForReset (prediction (fst (getUsageStats utc_environment t0 (Inl (LoaderRejected ''ENOENT'')) initial_service)))"
proof -
  have h: "snd (snd (getUsageStats utc_environment t0 (Inl (LoaderRejected ''ENOENT'')) initial_service)) = 1"
    by (simp add: getUsageStats_calls initial_not_fresh)
  from loader_rejection_gives_default [OF h] h show ?thesis by blast
qed

subsection \<open>Configuration\<close>

text \<open>
  Claim C8. \<^verbatim>\<open>updateConfiguration\<close> with the plan field set makes that plan the current
  plan, the selection \<^verbatim>\<open>'auto'\<close> counting as \<open>Custom\<close>; with the field unset the plan stays.
  In every case the cached snapshot is cleared, so that the next \<^verbatim>\<open>getUsageStats\<close> calls
  the loaders, whatever the time.
\<close>

theorem updateConfiguration_sets_plan_and_clears_cache:
  "cachedStats (updateConfiguration config sv) = None \<and>
   snd (snd (getUsageStats env now loaded (updateConfiguration config sv))) = 1 \<and>
   (cfg_plan config = None \<longrightarrow> currentPlan (updateConfiguration config sv) = currentPlan sv) \<and>
   (cfg_plan config = Some Auto \<longrightarrow> currentPlan (updateConfiguration config sv) = Custom) \<and>
   (\<forall>p. cfg_plan config = Some (Plan p) \<longrightarrow> currentPlan (updateConfiguration config sv) = p)"
  by (auto simp: updateConfiguration_def getUsageStats_calls cache_fresh_def Let_def
      split: option.splits)

theorem updateConfiguration_sets_plan_and_clears_cache_witness:
  "cache_fresh (t0 + 1) cached_service \<and>
   cfg_plan (config_with_plan (Some Auto)) = Some Auto \<and>
   cachedStats (updateConfiguration (config_with_plan (Some Auto)) cached_service) = None \<and>
   snd (snd (getUsageStats utc_environment (t0 + 1) (Inl (LoaderRejected ''ENOENT''))
     (updateConfiguration (config_with_plan (Some Auto)) cached_service))) = 1 \<and>
   currentPlan (updateConfiguration (config_with_plan (Some Auto)) cached_service) = Custom \<and>
   currentPlan (updateConfiguration (config_with_plan (Some (Plan Max5))) cached_service) = Max5 \<and>
   currentPlan (updateConfiguration (config_with_plan None) cached_service) = Pro"
  using updateConfiguration_sets_plan_and_clears_cache
          [of "config_with_plan (Some Auto)" cached_service utc_environment "t0 + 1"
              "Inl (LoaderRejected ''ENOENT'')"]
        updateConfiguration_sets_plan_and_clears_cache
          [of "config_with_plan (Some (Plan Max5))" cached_service utc_environment "t0 + 1"
              "Inl (LoaderRejected ''ENOENT'')"]
        updateConfiguration_sets_plan_and_clears_cache
          [of "config_with_plan None" cached_service utc_environment "t0 + 1"
              "Inl (LoaderRejected ''ENOENT'')"]
  by (simp add: config_with_plan_def cached_service_def initial_service_def cache_fresh_def
      CACHE_DURATION_def)

subsection \<open>The sample blocks\<close>

lemma sample_flags [simp]:
  "isActive (active_block n)" "\<not> isGap (active_block n)"
  "\<not> isActive (closed_block n)" "\<not> isGap (closed_block n)"
  "\<not> isActive gap_block" "isGap gap_block"
  by (simp_all add: active_block_def closed_block_def gap_block_def mk_block_def)

lemma find_active_block [simp]:
  "find (\<lambda>block. isActive block \<and> \<not> isGap block) (active_block n # bs) = Some (active_block n)"
  by (simp add: active_block_def mk_block_def)

lemma total_mk_block [simp]: "getTotalTokensFromBlock (mk_block name s e a act g n) = n"
  by (simp add: getTotalTokensFromBlock_def mk_block_def Let_def)

lemma total_active_block [simp]: "getTotalTokensFromBlock (active_block n) = n"
  by (simp add: active_block_def)

lemma total_closed_block [simp]: "getTotalTokensFromBlock (closed_block n) = n"
  by (simp add: closed_block_def)

lemma hourly_step_active_block [simp]: "hourly_step t0 (active_block n) acc = acc + of_nat n"
  by (simp add: hourly_step_def active_block_def mk_block_def getTotalTokensFromBlock_def
      t0_def minute_def Let_def)

lemma hourly_step_closed_block [simp]: "hourly_step t0 (closed_block n) acc = acc + of_nat n / 4"
  by (simp add: hourly_step_def closed_block_def mk_block_def getTotalTokensFromBlock_def
      t0_def minute_def Let_def)

lemma hourly_step_gap_block [simp]: "hourly_step t0 gap_block acc = acc"
  by (simp add: hourly_step_def gap_block_def mk_block_def)

lemma historical_totals_samples [simp]:
  "historical_totals [] = []"
  "historical_totals (active_block n # bs) = historical_totals bs"
  "historical_totals (closed_block n # bs) = n # historical_totals bs"
  "historical_totals (gap_block # bs) = historical_totals bs"
  by (simp_all add: historical_totals_def active_block_def closed_block_def gap_block_def
      mk_block_def getTotalTokensFromBlock_def Let_def)

lemma velocity_current: "current (calculateVelocityFromBlocks now bs r) = fl (r * 60)"
  by (simp add: calculateVelocityFromBlocks_def Let_def)

subsection \<open>The plan and the limit\<close>

lemma fold_max_tokens_step:
  "fold max_tokens_step bs m = fold max (historical_totals bs) m"
  by (induction bs arbitrary: m)
     (auto simp: historical_totals_def max_tokens_step_def Let_def max_def)

lemma fold_max_0: "fold max ts (0::nat) = (if ts = [] then 0 else Max (set ts))"
proof (cases ts)
  case Nil
  then show ?thesis by simp
next
  case (Cons x xs)
  then show ?thesis using Max.set_eq_fold [of x xs] by simp
qed

lemma getMaxTokensFromBlocks_eq:
  "getMaxTokensFromBlocks bs =
     (if historical_totals bs = [] \<or> Max (set (historical_totals bs)) = 0 then 7000
      else Max (set (historical_totals bs)))"
  by (simp add: getMaxTokensFromBlocks_def fold_max_tokens_step fold_max_0 Let_def)

lemma resolve_limit_fields:
  "detectedTokenLimit (resolve_limit blocks used sv) =
     (if currentPlan sv = Custom \<or> (currentPlan sv = Pro \<and> used > 7000)
      then getMaxTokensFromBlocks blocks else getTokenLimit (currentPlan sv))"
  "currentPlan (resolve_limit blocks used sv) =
     (if currentPlan sv = Pro \<and> used > 7000 then Custom else currentPlan sv)"
  "currentActiveBlock (resolve_limit blocks used sv) = currentActiveBlock sv"
  "cachedStats (resolve_limit blocks used sv) = cachedStats sv"
  "lastUpdate (resolve_limit blocks used sv) = lastUpdate sv"
  by (auto simp: resolve_limit_def Let_def)

lemma parseBlocksData_service:
  "snd (parseBlocksData env now blocks dd sv) =
     (case find (\<lambda>block. isActive block \<and> \<not> isGap block) blocks of
        None \<Rightarrow> sv\<lparr>currentActiveBlock := None\<rparr>
      | Some a \<Rightarrow>
          resolve_limit blocks (getTotalTokensFromBlock a) (sv\<lparr>currentActiveBlock := Some a\<rparr>))"
  by (simp add: parseBlocksData_def Let_def split: option.splits sum.splits)

lemma parseBlocksData_stats:
  assumes "find (\<lambda>block. isActive block \<and> \<not> isGap block) blocks = Some a"
    and "fst (parseBlocksData env now blocks dd sv) = Inr s"
  shows "tokenLimit s = detectedTokenLimit (snd (parseBlocksData env now blocks dd sv)) \<and>
         stats_currentPlan s = currentPlan (snd (parseBlocksData env now blocks dd sv)) \<and>
         tokensUsed s = getTotalTokensFromBlock a"
  using assms by (auto simp: parseBlocksData_def Let_def split: option.splits sum.splits)

text \<open>The prediction is made when the projected depletion is a valid date.\<close>

lemma calculatePredictionInfo_returns:
  assumes "current v > 0 \<Longrightarrow>
           \<bar>of_int now + of_nat (nat (max 0 (int limit - int used))) / current v * 60 * 60 * 1000\<bar>
             \<le> of_int max_time_value"
  shows "\<exists>p. calculatePredictionInfo env now used limit v ri = Inr p"
proof (cases "current v > 0")
  case True
  with assms [OF True] show ?thesis
    by (simp add: calculatePredictionInfo_def Let_def not_less [symmetric])
next
  case False
  then show ?thesis by (simp add: calculatePredictionInfo_def Let_def)
qed

lemma parseBlocksData_returns:
  assumes "find (\<lambda>block. isActive block \<and> \<not> isGap block) blocks = Some a"
    and "calculatePredictionInfo env now (getTotalTokensFromBlock a)
           (detectedTokenLimit (snd (parseBlocksData env now blocks dd sv)))
           (calculateVelocityFromBlocks now blocks (calculateHourlyBurnRate now blocks))
           (calculateResetInfo env) = Inr p"
  shows "\<exists>s. fst (parseBlocksData env now blocks dd sv) = Inr s"
  using assms by (auto simp: parseBlocksData_def Let_def split: option.splits sum.splits)

text \<open>
  Claim C2, amended. When the block list holds an active block that is not a gap: if the
  current plan is \<open>Custom\<close>, or it is \<open>Pro\<close> and the active block has more than 7000
  tokens, the effective limit is the maximum of the totals of the blocks that are
  neither gaps nor active, and it is 7000 when there is no such block or when that
  maximum is 0; if the usage under \<open>Pro\<close> is above 7000 the plan becomes \<open>Custom\<close>.
  Otherwise the limit is the threshold of the current plan, which stays. The snapshot,
  when one is made, carries this limit and this plan.
\<close>

theorem effective_limit_resolution:
  assumes "find (\<lambda>b. isActive b \<and> \<not> isGap b) blocks = Some a"
  shows "detectedTokenLimit (snd (parseBlocksData env now blocks dd sv)) =
           (if currentPlan sv = Custom \<or> (currentPlan sv = Pro \<and> getTotalTokensFromBlock a > 7000)
            then
              (if historical_totals blocks = [] \<or> Max (set (historical_totals blocks)) = 0
               then 7000
               else Max (set (historical_totals blocks)))
            else getTokenLimit (currentPlan sv)) \<and>
         currentPlan (snd (parseBlocksData env now blocks dd sv)) =
           (if currentPlan sv = Pro \<and> getTotalTokensFromBlock a > 7000 then Custom
            else currentPlan sv) \<and>
         (\<forall>s. fst (parseBlocksData env now blocks dd sv) = Inr s \<longrightarrow>
            tokenLimit s = detectedTokenLimit (snd (parseBlocksData env now blocks dd sv)) \<and>
            stats_currentPlan s = currentPlan (snd (parseBlocksData env now blocks dd sv)))"
proof (intro conjI allI impI)
  show "detectedTokenLimit (snd (parseBlocksData env now blocks dd sv)) =
           (if currentPlan sv = Custom \<or> (currentPlan sv = Pro \<and> getTotalTokensFromBlock a > 7000)
            then
              (if historical_totals blocks = [] \<or> Max (set (historical_totals blocks)) = 0
               then 7000
               else Max (set (historical_totals blocks)))
            else getTokenLimit (currentPlan sv))"
    using assms
    by (simp add: parseBlocksData_service resolve_limit_fields getMaxTokensFromBlocks_eq)
  show "currentPlan (snd (parseBlocksData env now blocks dd sv)) =
           (if currentPlan sv = Pro \<and> getTotalTokensFromBlock a > 7000 then Custom
            else currentPlan sv)"
    using assms by (simp add: parseBlocksData_service resolve_limit_fields)
next
  fix s
  assume "fst (parseBlocksData env now blocks dd sv) = Inr s"
  from parseBlocksData_stats [OF assms this]
  show "tokenLimit s = detectedTokenLimit (snd (parseBlocksData env now blocks dd sv))"
    and "stats_currentPlan s = currentPlan (snd (parseBlocksData env now blocks dd sv))"
    by simp_all
qed

lemma sample_history_returns:
  "\<exists>s. fst (parseBlocksData utc_environment t0 [active_block 7500, closed_block 9000, gap_block]
           None initial_service) = Inr s"
proof -
  have "\<exists>p. calculatePredictionInfo utc_environment t0 (getTotalTokensFromBlock (active_block 7500))
          (detectedTokenLimit (snd (parseBlocksData utc_environment t0
             [active_block 7500, closed_block 9000, gap_block] None initial_service)))
          (calculateVelocityFromBlocks t0 [active_block 7500, closed_block 9000, gap_block]
             (calculateHourlyBurnRate t0 [active_block 7500, closed_block 9000, gap_block]))
          (calculateResetInfo utc_environment) = Inr p"
    by (rule calculatePredictionInfo_returns)
       (simp add: parseBlocksData_service resolve_limit_fields getMaxTokensFromBlocks_eq
          initial_service_def velocity_current calculateHourlyBurnRate_def;
        simp add: t0_def max_time_value_def)
  then show ?thesis
    using parseBlocksData_returns [OF find_active_block] by blast
qed

theorem effective_limit_resolution_witness:
  "find (\<lambda>b. isActive b \<and> \<not> isGap b) [active_block 7500, closed_block 9000, gap_block] =
     Some (active_block 7500) \<and>
   detectedTokenLimit (snd (parseBlocksData utc_environment t0
     [active_block 7500, closed_block 9000, gap_block] None initial_service)) = 9000 \<and>
   currentPlan (snd (parseBlocksData utc_environment t0
     [active_block 7500, closed_block 9000, gap_block] None initial_service)) = Custom \<and>
   map_sum id tokenLimit (fst (parseBlocksData utc_environment t0
     [active_block 7500, closed_block 9000, gap_block] None initial_service)) = Inr 9000 \<and>
   map_sum id stats_currentPlan (fst (parseBlocksData utc_environment t0
     [active_block 7500, closed_block 9000, gap_block] None initial_service)) = Inr Custom"
proof -
  obtain s where s: "fst (parseBlocksData utc_environment t0
      [active_block 7500, closed_block 9000, gap_block] None
      (initial_service :: (unit, string list) service)) = Inr s"
    using sample_history_returns by blast
  note r = effective_limit_resolution
         [of "[active_block 7500, closed_block 9000, gap_block]" "active_block 7500"
             utc_environment t0 None initial_service, OF find_active_block]
  have a: "detectedTokenLimit (snd (parseBlocksData utc_environment t0
      [active_block 7500, closed_block 9000, gap_block] None
      (initial_service :: (unit, string list) service))) = 9000"
    using r by (simp add: initial_service_def)
  have b: "currentPlan (snd (parseBlocksData utc_environment t0
      [active_block 7500, closed_block 9000, gap_block] None
      (initial_service :: (unit, string list) service))) = Custom"
    using r by (simp add: initial_service_def)
  from r s have "tokenLimit s = 9000" and "stats_currentPlan s = Custom"
    by (simp_all add: a b)
  with s a b find_active_block show ?thesis by simp
qed

text \<open>
  Claim C2 as it is worded fails on a historical block without tokens: under the plan
  \<open>Custom\<close>, with an active block of 100 tokens and a closed block of 0 tokens, the
  maximum over the historical blocks is 0 and the detected limit is 7000.
\<close>

theorem effective_limit_resolution_counterexample:
  "detectedTokenLimit (snd (parseBlocksData utc_environment t0
      [active_block 100, closed_block 0] None (initial_service\<lparr>currentPlan := Custom\<rparr>))) = 7000 \<and>
   spec_effective_limit Custom (getTotalTokensFromBlock (active_block 100))
      [active_block 100, closed_block 0] = 0"
  by (simp add: parseBlocksData_service resolve_limit_fields getMaxTokensFromBlocks_eq
      spec_effective_limit_def initial_service_def)

text \<open>
  Claim C3, amended. When the active block has 7500 tokens, the current plan is \<open>Pro\<close>
  and no block is historical (neither a gap nor active), the plan becomes \<open>Custom\<close> and
  the effective limit falls back to 7000, the threshold of \<open>Pro\<close>.
\<close>

theorem promotion_without_history:
  assumes "find (\<lambda>b. isActive b \<and> \<not> isGap b) blocks = Some a"
    and "getTotalTokensFromBlock a = 7500"
    and "currentPlan sv = Pro"
    and "historical_totals blocks = []"
  shows "currentPlan (snd (parseBlocksData env now blocks dd sv)) = Custom \<and>
         detectedTokenLimit (snd (parseBlocksData env now blocks dd sv)) = 7000 \<and>
         (\<forall>s. fst (parseBlocksData env now blocks dd sv) = Inr s \<longrightarrow>
            stats_currentPlan s = Custom \<and> tokenLimit s = 7000)"
proof -
  have plan: "currentPlan (snd (parseBlocksData env now blocks dd sv)) = Custom"
    using assms by (simp add: parseBlocksData_service resolve_limit_fields)
  have limit: "detectedTokenLimit (snd (parseBlocksData env now blocks dd sv)) = 7000"
    using assms
    by (simp add: parseBlocksData_service resolve_limit_fields getMaxTokensFromBlocks_eq)
  show ?thesis
    using parseBlocksData_stats [OF assms(1), of env now dd sv] plan limit by simp
qed

lemma sample_promotion_returns:
  "\<exists>s. fst (parseBlocksData utc_environment t0 (active_block 7500 # bs) None initial_service) = Inr s"
  if "historical_totals bs = []"
proof -
  have "\<exists>p. calculatePredictionInfo utc_environment t0 (getTotalTokensFromBlock (active_block 7500))
          (detectedTokenLimit (snd (parseBlocksData utc_environment t0
             (active_block 7500 # bs) None initial_service)))
          (calculateVelocityFromBlocks t0 (active_block 7500 # bs)
             (calculateHourlyBurnRate t0 (active_block 7500 # bs)))
          (calculateResetInfo utc_environment) = Inr p"
    by (rule calculatePredictionInfo_returns)
       (simp add: that parseBlocksData_service resolve_limit_fields getMaxTokensFromBlocks_eq
          initial_service_def velocity_current; simp add: t0_def max_time_value_def)
  then show ?thesis
    using parseBlocksData_returns [OF find_active_block] by blast
qed

theorem promotion_without_history_witness:
  "find (\<lambda>b. isActive b \<and> \<not> isGap b) [active_block 7500, gap_block] = Some (active_block 7500) \<and>
   getTotalTokensFromBlock (active_block 7500) = 7500 \<and>
   currentPlan (initial_service :: (unit, string list) service) = Pro \<and>
   historical_totals [active_block 7500, gap_block] = [] \<and>
   currentPlan (snd (parseBlocksData utc_environment t0 [active_block 7500, gap_block] None
     initial_service)) = Custom \<and>
   detectedTokenLimit (snd (parseBlocksData utc_environment t0 [active_block 7500, gap_block] None
     initial_service)) = 7000 \<and>
   map_sum id stats_currentPlan (fst (parseBlocksData utc_environment t0
     [active_block 7500, gap_block] None initial_service)) = Inr Custom \<and>
   map_sum id tokenLimit (fst (parseBlocksData utc_environment t0
     [active_block 7500, gap_block] None initial_service)) = Inr 7000"
proof -
  have h: "getTotalTokensFromBlock (active_block 7500) = 7500"
    "currentPlan (initial_service :: (unit, string list) service) = Pro"
    "historical_totals [active_block 7500, gap_block] = []"
    by (simp_all add: initial_service_def)
  obtain s where s: "fst (parseBlocksData utc_environment t0 [active_block 7500, gap_block] None
      (initial_service :: (unit, string list) service)) = Inr s"
    using sample_promotion_returns [of "[gap_block]"] by auto
  from promotion_without_history [OF find_active_block h, of utc_environment t0 None] s h
  show ?thesis by simp
qed

text \<open>
  Claim C3 as it is worded fails: with an active block of 7500 tokens alone, under
  \<open>Pro\<close>, the plan becomes \<open>Custom\<close> and the limit is 7000, not the 500000 of the
  plan \<open>Custom\<close>.
\<close>

theorem promotion_without_history_counterexample:
  "currentPlan (snd (parseBlocksData utc_environment t0 [active_block 7500] None
     initial_service)) = Custom \<and>
   map_sum id tokenLimit (fst (parseBlocksData utc_environment t0 [active_block 7500] None
     initial_service)) = Inr 7000 \<and>
   map_sum id tokenLimit (fst (parseBlocksData utc_environment t0 [active_block 7500] None
     initial_service)) \<noteq> Inr (getTokenLimit Custom)"
proof -
  obtain s where s: "fst (parseBlocksData utc_environment t0 [active_block 7500] None
      (initial_service :: (unit, string list) service)) = Inr s"
    using sample_promotion_returns [of "[]"] by auto
  have "currentPlan (snd (parseBlocksData utc_environment t0 [active_block 7500] None
      (initial_service :: (unit, string list) service))) = Custom"
    and "detectedTokenLimit (snd (parseBlocksData utc_environment t0 [active_block 7500] None
      (initial_service :: (unit, string list) service))) = 7000"
    by (simp_all add: parseBlocksData_service resolve_limit_fields getMaxTokensFromBlocks_eq
        initial_service_def)
  with parseBlocksData_stats [OF find_active_block s] s show ?thesis by simp
qed

subsection \<open>The hourly burn rate\<close>

lemma hourly_step_apportioned:
  "hourly_step now b acc =
     acc + (if \<not> isGap b \<and> \<not> effective_end now b < now - 3600000 then apportioned now b else 0)"
  by (auto simp: hourly_step_def effective_end_def overlap_ms_def apportioned_def Let_def
      split: option.splits)

lemma fold_hourly_step:
  "fold (hourly_step now) bs acc =
     acc + sum_list (map (apportioned now)
       (filter (\<lambda>b. \<not> isGap b \<and> \<not> effective_end now b < now - 3600000) bs))"
  by (induction bs arbitrary: acc) (simp_all add: hourly_step_apportioned)

text \<open>
  Claim C4. The hourly burn rate is the sum, over the blocks that are not gaps and whose
  effective end is not before the trailing hour, of the tokens of the block times the
  ratio of its overlap with the trailing hour to its whole duration, divided by 60.
  A block of 1200 tokens that lasted two hours, thirty minutes of them in the trailing
  hour, brings 300 tokens to the sum.
\<close>

theorem hourly_burn_rate_apportions_overlap:
  "calculateHourlyBurnRate now bs = spec_hourly_burn_rate now bs \<and>
   (\<not> isGap b \<and> getTotalTokensFromBlock b = 1200 \<and>
    effective_end now b - startTime b = 120 * 60000 \<and> overlap_ms now b = 30 * 60000 \<longrightarrow>
    apportioned now b = 300 \<and> calculateHourlyBurnRate now [b] * 60 = 300)"
proof -
  have eq: "calculateHourlyBurnRate now xs = spec_hourly_burn_rate now xs" for xs
    by (simp add: calculateHourlyBurnRate_def spec_hourly_burn_rate_def fold_hourly_step)
  have ex: "apportioned now b = 300 \<and> calculateHourlyBurnRate now [b] * 60 = 300"
    if "\<not> isGap b" "getTotalTokensFromBlock b = 1200"
      "effective_end now b - startTime b = 120 * 60000" "overlap_ms now b = 30 * 60000"
  proof -
    have a: "apportioned now b = 300"
      using that by (simp add: apportioned_def)
    have "\<not> effective_end now b < now - 3600000"
      using that(4) by (simp add: overlap_ms_def)
    with a that(1) show ?thesis
      by (simp add: eq spec_hourly_burn_rate_def)
  qed
  from eq ex show ?thesis by blast
qed

theorem hourly_burn_rate_apportions_overlap_witness:
  "\<not> isGap (closed_block 1200) \<and> getTotalTokensFromBlock (closed_block 1200) = 1200 \<and>
   effective_end t0 (closed_block 1200) - startTime (closed_block 1200) = 120 * 60000 \<and>
   overlap_ms t0 (closed_block 1200) = 30 * 60000 \<and>
   apportioned t0 (closed_block 1200) = 300 \<and>
   calculateHourlyBurnRate t0 [closed_block 1200] * 60 = 300 \<and>
   calculateHourlyBurnRate t0 [active_block 100, closed_block 1200, gap_block] = 400 / 60 \<and>
   spec_hourly_burn_rate t0 [active_block 100, closed_block 1200, gap_block] = 400 / 60"
proof -
  have h: "effective_end t0 (closed_block 1200) - startTime (closed_block 1200) = 120 * 60000"
    "overlap_ms t0 (closed_block 1200) = 30 * 60000"
    by (simp_all add: overlap_ms_def effective_end_def closed_block_def mk_block_def t0_def
        minute_def)
  have r: "calculateHourlyBurnRate t0 [active_block 100, closed_block 1200, gap_block] = 400 / 60"
    by (simp add: calculateHourlyBurnRate_def)
  from hourly_burn_rate_apportions_overlap
         [of t0 "[active_block 100, closed_block 1200, gap_block]" "closed_block 1200"] h r
  show ?thesis by simp
qed

subsection \<open>Rounding of fractions\<close>

lemma floor_rat_divide_numeral [simp]:
  "\<lfloor>numeral a / numeral b :: rat\<rfloor> = numeral a div numeral b"
  by (metis floor_divide_of_int_eq of_int_numeral)

lemma floor_rat_one_divide_numeral [simp]:
  "\<lfloor>1 / numeral b :: rat\<rfloor> = 1 div numeral b"
  by (metis floor_divide_of_int_eq of_int_1 of_int_numeral)

lemma floor_rat_minus_divide_numeral [simp]:
  "\<lfloor>- (numeral a / numeral b) :: rat\<rfloor> = - numeral a div numeral b"
  by (metis divide_minus_left floor_divide_of_int_eq of_int_neg_numeral of_int_numeral)

subsection \<open>Velocity\<close>

lemma fold_add_total:
  "fold (\<lambda>block t. t + getTotalTokensFromBlock block) xs a =
     a + sum_list (map getTotalTokensFromBlock xs)"
  by (induction xs arbitrary: a) simp_all

lemma tokens24h_eq:
  "fold (\<lambda>block t. t + getTotalTokensFromBlock block)
     (filter (\<lambda>b. \<not> isGap b \<and> startTime b \<ge> now - 24 * 60 * 60 * 1000) bs) 0 =
   tokens_since now 86400000 bs"
  by (simp add: fold_add_total tokens_since_def)

lemma tokens7d_eq:
  "fold (\<lambda>block t. t + getTotalTokensFromBlock block)
     (filter (\<lambda>b. \<not> isGap b \<and> startTime b \<ge> now - 7 * 24 * 60 * 60 * 1000) bs) 0 =
   tokens_since now 604800000 bs"
  by (simp add: fold_add_total tokens_since_def)

lemma calculateVelocityFromBlocks_eq:
  "calculateVelocityFromBlocks now bs r =
     (let c = fl (r * 60);
          a = fl (of_nat (tokens_since now 86400000 bs) / 24);
          t = trend_percent_in_doubles c a
      in \<lparr>current = c,
          average24h = a,
          average7d = fl (of_nat (tokens_since now 604800000 bs) / (7 * 24)),
          trend_of = (if \<bar>t\<bar> > 15 then (if t > 0 then increasing else decreasing) else stable),
          trendPercent = fl (of_int (js_round (fl (t * 10))) / 10),
          peakHour = 14,
          isAccelerating = (\<bar>t\<bar> > 15 \<and> t > 0 \<and> t > 20)\<rparr>)"
proof -
  define S where "S = tokens_since now 86400000 bs"
  define W where "W = tokens_since now 604800000 bs"
  define a where "a = fl (of_nat S / 24)"
  have s: "fold (\<lambda>block t. t + getTotalTokensFromBlock block)
     (filter (\<lambda>b. \<not> isGap b \<and> startTime b \<ge> now - 24 * 60 * 60 * 1000) bs) 0 = S"
    unfolding S_def by (rule tokens24h_eq)
  have w: "fold (\<lambda>block t. t + getTotalTokensFromBlock block)
     (filter (\<lambda>b. \<not> isGap b \<and> startTime b \<ge> now - 7 * 24 * 60 * 60 * 1000) bs) 0 = W"
    unfolding W_def by (rule tokens7d_eq)
  have "0 \<le> a" unfolding a_def by (rule fl_nonneg) simp
  then have z: "(0 < a) = (a \<noteq> 0)" by auto
  show ?thesis
    unfolding calculateVelocityFromBlocks_def Let_def s w S_def [symmetric] W_def [symmetric]
      a_def [symmetric] trend_percent_in_doubles_def z
    by auto
qed

lemma sample_flags_earlier [simp]:
  "\<not> isActive (earlier_block n)" "\<not> isGap (earlier_block n)"
  "getTotalTokensFromBlock (earlier_block n) = n"
  by (simp_all add: earlier_block_def mk_block_def getTotalTokensFromBlock_def Let_def)

lemma hourly_step_earlier_block [simp]: "hourly_step t0 (earlier_block n) acc = acc"
  by (simp add: hourly_step_def earlier_block_def mk_block_def t0_def minute_def Let_def)

lemma tokens_since_samples [simp]:
  "tokens_since t0 86400000 [] = 0"
  "tokens_since t0 86400000 (active_block n # bs) = n + tokens_since t0 86400000 bs"
  "tokens_since t0 86400000 (earlier_block n # bs) = n + tokens_since t0 86400000 bs"
  by (simp_all add: tokens_since_def active_block_def earlier_block_def mk_block_def
      getTotalTokensFromBlock_def t0_def minute_def Let_def)

text \<open>
  Claim C5, amended. Let \<open>c\<close> be the current hourly rate (60 times the burn rate) and \<open>a\<close>
  the 24-hour average (the tokens of the blocks that are not gaps and started in the last
  24 hours, divided by 24), both as doubles, and let \<open>t\<close> be ((c - a) / a) * 100 as double
  arithmetic computes it, each operation rounded, or 0 when \<open>a\<close> is 0. The velocity
  returns \<open>t\<close> rounded to one decimal, by \<^verbatim>\<open>Math.round(t * 10) / 10\<close>, as its trend
  percentage. Its trend is increasing or decreasing, by the sign of \<open>t\<close>, exactly when the
  magnitude of \<open>t\<close> is above 15, and stable otherwise; it is accelerating exactly when the
  trend is increasing and \<open>t\<close> is above 20. A current rate 20 percent above the average is
  increasing, one 10 percent above is stable.
\<close>

theorem velocity_trend_classification:
  "(let v = calculateVelocityFromBlocks now bs r;
        c = fl (r * 60);
        a = fl (of_nat (tokens_since now 86400000 bs) / 24);
        t = trend_percent_in_doubles c a
    in current v = c \<and> average24h v = a \<and>
       trendPercent v = fl (of_int (js_round (fl (t * 10))) / 10) \<and>
       trend_of v = (if \<bar>t\<bar> > 15 then (if t > 0 then increasing else decreasing) else stable) \<and>
       isAccelerating v = (trend_of v = increasing \<and> t > 20) \<and>
       (a > 0 \<and> c = a * (120 / 100) \<longrightarrow> trend_of v = increasing) \<and>
       (a > 0 \<and> c = a * (110 / 100) \<longrightarrow> trend_of v = stable))"
proof -
  define c where "c = fl (r * 60)"
  define a where "a = fl (of_nat (tokens_since now 86400000 bs) / 24)"
  define t where "t = trend_percent_in_doubles c a"
  define v where "v = calculateVelocityFromBlocks now bs r"
  have v: "v = \<lparr>current = c, average24h = a,
      average7d = fl (of_nat (tokens_since now 604800000 bs) / (7 * 24)),
      trend_of = (if \<bar>t\<bar> > 15 then (if t > 0 then increasing else decreasing) else stable),
      trendPercent = fl (of_int (js_round (fl (t * 10))) / 10), peakHour = 14,
      isAccelerating = (\<bar>t\<bar> > 15 \<and> t > 0 \<and> t > 20)\<rparr>"
    unfolding v_def c_def a_def t_def calculateVelocityFromBlocks_eq Let_def ..
  have fields: "current v = c" "average24h v = a"
    "trendPercent v = fl (of_int (js_round (fl (t * 10))) / 10)"
    "trend_of v = (if \<bar>t\<bar> > 15 then (if t > 0 then increasing else decreasing) else stable)"
    by (simp_all add: v)
  have acc: "isAccelerating v = (trend_of v = increasing \<and> t > 20)"
    by (auto simp: v)
  have up: "trend_of v = increasing" if "a > 0" "c = a * (120 / 100)"
  proof -
    from that(1) have "1 / 25 \<le> a" unfolding a_def by (rule fl_average_bound)
    moreover have "t = trend_percent_in_doubles (a * (1 + 1 / 5)) a"
      unfolding t_def that(2) by simp
    ultimately have "(1 / 5) * 97 \<le> t"
      using trend_in_doubles_ratio(1) [of a "1 / 5"] by simp
    then show ?thesis by (simp add: fields)
  qed
  have flat: "trend_of v = stable" if "a > 0" "c = a * (110 / 100)"
  proof -
    from that(1) have "1 / 25 \<le> a" unfolding a_def by (rule fl_average_bound)
    moreover have "t = trend_percent_in_doubles (a * (1 + 1 / 10)) a"
      unfolding t_def that(2) by simp
    ultimately have "(1 / 10) * 97 \<le> t" "t \<le> (1 / 10) * 105"
      using trend_in_doubles_ratio [of a "1 / 10"] by simp_all
    then show ?thesis by (simp add: fields)
  qed
  from fields acc up flat show ?thesis
    unfolding Let_def v_def [symmetric] c_def [symmetric] a_def [symmetric] t_def [symmetric]
    by blast
qed

lemma sample_doubles:
  "fl (5 / 2) = 5 / 2"
  "fl (fl (1 / 20) * 60) = 3"
  "fl (fl (11 / 240) * 60) = 11 / 4"
  "trend_percent_in_doubles 3 (5 / 2) = 20"
  "trend_percent_in_doubles (11 / 4) (5 / 2) = 10"
  "fl (of_int (js_round (fl (20 * 10))) / 10) = 20"
  "fl (of_int (js_round (fl (10 * 10))) / 10) = 10"
  by code_simp+

lemma sample_average_60:
  "fl (of_nat (tokens_since t0 86400000 [earlier_block 60]) / 24) = 5 / 2"
  by (simp add: sample_doubles)

theorem velocity_trend_classification_witness:
  "fl (of_nat (tokens_since t0 86400000 [earlier_block 60]) / 24) = 5 / 2 \<and>
   fl (fl (1 / 20) * 60) = (5 / 2) * (120 / 100) \<and>
   fl (fl (11 / 240) * 60) = (5 / 2) * (110 / 100) \<and>
   trend_of (calculateVelocityFromBlocks t0 [earlier_block 60] (fl (1 / 20))) = increasing \<and>
   \<not> isAccelerating (calculateVelocityFromBlocks t0 [earlier_block 60] (fl (1 / 20))) \<and>
   trendPercent (calculateVelocityFromBlocks t0 [earlier_block 60] (fl (1 / 20))) = 20 \<and>
   trend_of (calculateVelocityFromBlocks t0 [earlier_block 60] (fl (11 / 240))) = stable \<and>
   trendPercent (calculateVelocityFromBlocks t0 [earlier_block 60] (fl (11 / 240))) = 10"
proof -
  note up = velocity_trend_classification [of t0 "[earlier_block 60]" "fl (1 / 20)",
      unfolded Let_def sample_average_60 sample_doubles]
  note flat = velocity_trend_classification [of t0 "[earlier_block 60]" "fl (11 / 240)",
      unfolded Let_def sample_average_60 sample_doubles]
  have c: "fl (fl (1 / 20) * 60) = (5 / 2) * (120 / 100)"
    "fl (fl (11 / 240) * 60) = (5 / 2) * (110 / 100)"
    by (simp_all add: sample_doubles)
  from up have "trend_of (calculateVelocityFromBlocks t0 [earlier_block 60] (fl (1 / 20))) =
      increasing"
    and "\<not> isAccelerating (calculateVelocityFromBlocks t0 [earlier_block 60] (fl (1 / 20)))"
    and "trendPercent (calculateVelocityFromBlocks t0 [earlier_block 60] (fl (1 / 20))) = 20"
    by simp_all
  moreover from flat
  have "trend_of (calculateVelocityFromBlocks t0 [earlier_block 60] (fl (11 / 240))) = stable"
    and "trendPercent (calculateVelocityFromBlocks t0 [earlier_block 60] (fl (11 / 240))) = 10"
    by simp_all
  ultimately show ?thesis using sample_average_60 c by blast
qed

lemma calculateVelocityFromBlocks_rate:
  "fl (r * 60) = fl (r' * 60) \<Longrightarrow>
     calculateVelocityFromBlocks now bs r = calculateVelocityFromBlocks now bs r'"
  by (simp add: calculateVelocityFromBlocks_def Let_def)

lemma sample_doubles_volatile:
  "fl (fl (5 / 3) * 60) = 100"
  "fl (43 / 6) = 8068949332372139 / 1125899906842624"
  "trend_percent_in_doubles 100 (8068949332372139 / 1125899906842624) =
     5697004434150995 / 4398046511104"
  "fl (of_int (js_round (fl (5697004434150995 / 4398046511104 * 10))) / 10) =
     5696789645833011 / 4398046511104"
  "fl (12953 / 10) = 5696789645833011 / 4398046511104"
  by code_simp+

lemma sample_doubles_idle:
  "trend_percent_in_doubles 0 3 = - 100"
  "fl (of_int (js_round (fl (- 100 * 10))) / 10) = - 100"
  by code_simp+

lemma sample_velocity_volatile:
  "calculateVelocityFromBlocks t0 [active_block 100, earlier_block 72]
     (calculateHourlyBurnRate t0 [active_block 100, earlier_block 72]) =
   \<lparr>current = 100, average24h = 8068949332372139 / 1125899906842624,
    average7d =
      fl (of_nat (tokens_since t0 604800000 [active_block 100, earlier_block 72]) / (7 * 24)),
    trend_of = increasing, trendPercent = 5696789645833011 / 4398046511104, peakHour = 14,
    isAccelerating = True\<rparr>"
proof -
  have c: "fl (calculateHourlyBurnRate t0 [active_block 100, earlier_block 72] * 60) = 100"
    by (simp add: calculateHourlyBurnRate_def)
  have a: "fl (of_nat (tokens_since t0 86400000 [active_block 100, earlier_block 72]) / 24) =
      8068949332372139 / 1125899906842624"
    by (simp add: sample_doubles_volatile)
  show ?thesis
    unfolding calculateVelocityFromBlocks_eq Let_def c a sample_doubles_volatile by simp
qed

lemma sample_velocity_idle:
  "calculateVelocityFromBlocks t0 [active_block 0, earlier_block 72]
     (calculateHourlyBurnRate t0 [active_block 0, earlier_block 72]) =
   \<lparr>current = 0, average24h = 3,
    average7d =
      fl (of_nat (tokens_since t0 604800000 [active_block 0, earlier_block 72]) / (7 * 24)),
    trend_of = decreasing, trendPercent = - 100, peakHour = 14, isAccelerating = False\<rparr>"
proof -
  have c: "fl (calculateHourlyBurnRate t0 [active_block 0, earlier_block 72] * 60) = 0"
    by (simp add: calculateHourlyBurnRate_def)
  have a: "fl (of_nat (tokens_since t0 86400000 [active_block 0, earlier_block 72]) / 24) = 3"
    by simp
  show ?thesis
    unfolding calculateVelocityFromBlocks_eq Let_def c a sample_doubles_idle by simp
qed

text \<open>
  Claim C5 as it is worded fails on the trend percentage that is returned. With an active
  block of 100 tokens and an earlier block of 72 tokens the burn rate is the double
  nearest to 100 / 60, the current rate is 100 and the average is the double nearest to
  43 / 6. The velocity carries the double nearest to 1295.3, which is neither the
  formula on its current rate and its average (about 1295.3488) nor that formula in
  double arithmetic.
\<close>

theorem velocity_trend_classification_counterexample:
  "trendPercent (calculateVelocityFromBlocks t0 [active_block 100, earlier_block 72]
      (fl (calculateHourlyBurnRate t0 [active_block 100, earlier_block 72]))) =
     fl (12953 / 10) \<and>
   spec_trend_percent
     (current (calculateVelocityFromBlocks t0 [active_block 100, earlier_block 72]
        (fl (calculateHourlyBurnRate t0 [active_block 100, earlier_block 72]))))
     (average24h (calculateVelocityFromBlocks t0 [active_block 100, earlier_block 72]
        (fl (calculateHourlyBurnRate t0 [active_block 100, earlier_block 72])))) \<noteq>
     fl (12953 / 10) \<and>
   trend_percent_in_doubles
     (current (calculateVelocityFromBlocks t0 [active_block 100, earlier_block 72]
        (fl (calculateHourlyBurnRate t0 [active_block 100, earlier_block 72]))))
     (average24h (calculateVelocityFromBlocks t0 [active_block 100, earlier_block 72]
        (fl (calculateHourlyBurnRate t0 [active_block 100, earlier_block 72])))) \<noteq>
     fl (12953 / 10)"
proof -
  have "fl (fl (calculateHourlyBurnRate t0 [active_block 100, earlier_block 72]) * 60) =
      fl (calculateHourlyBurnRate t0 [active_block 100, earlier_block 72] * 60)"
    by (simp add: calculateHourlyBurnRate_def sample_doubles_volatile)
  then have "calculateVelocityFromBlocks t0 [active_block 100, earlier_block 72]
      (fl (calculateHourlyBurnRate t0 [active_block 100, earlier_block 72])) =
    calculateVelocityFromBlocks t0 [active_block 100, earlier_block 72]
      (calculateHourlyBurnRate t0 [active_block 100, earlier_block 72])"
    by (rule calculateVelocityFromBlocks_rate)
  then show ?thesis
    unfolding sample_velocity_volatile
    by (simp add: sample_doubles_volatile spec_trend_percent_def)
qed

subsection \<open>Prediction\<close>

lemma js_round_confidence [simp]: "js_round 50 = 50" "js_round 60 = 60" "js_round 80 = 80"
  by (simp_all add: js_round_def)

lemma calculatePredictionInfo_confidence:
  assumes "calculatePredictionInfo env now used limit v ri = Inr p"
  shows "confidence p =
           (if current v > 0 \<and> average24h v > 0
            then (if \<bar>trendPercent v\<bar> > 50 then 60 else 80) else 50)"
  using assms
  by (auto simp: calculatePredictionInfo_def Let_def split: if_splits)

text \<open>
  Claim C6, amended. Whenever the prediction is made, its confidence is what one gets
  from 50 by adding 30 when both the current and the 24-hour average rates are positive
  and, in that case only, taking 20 off when the magnitude of the trend percentage is
  above 50; it lies between 0 and 95. The prediction is made whenever the current rate is
  not positive (otherwise it needs the projected depletion to be a valid date).
\<close>

theorem prediction_confidence:
  "(\<forall>p. calculatePredictionInfo env now used limit v ri = Inr p \<longrightarrow>
      confidence p =
        max 0 (min 95
          (50 + (if current v > 0 \<and> average24h v > 0
                 then 30 - (if \<bar>trendPercent v\<bar> > 50 then 20 else 0) else 0))) \<and>
      0 \<le> confidence p \<and> confidence p \<le> 95) \<and>
   (current v \<le> 0 \<longrightarrow> (\<exists>p. calculatePredictionInfo env now used limit v ri = Inr p))"
proof (intro conjI allI impI)
  fix p
  assume "calculatePredictionInfo env now used limit v ri = Inr p"
  note c = calculatePredictionInfo_confidence [OF this]
  show "confidence p =
        max 0 (min 95
          (50 + (if current v > 0 \<and> average24h v > 0
                 then 30 - (if \<bar>trendPercent v\<bar> > 50 then 20 else 0) else 0)))"
    by (simp add: c)
  show "0 \<le> confidence p" by (simp add: c)
  show "confidence p \<le> 95" by (simp add: c)
next
  assume "current v \<le> 0"
  then show "\<exists>p. calculatePredictionInfo env now used limit v ri = Inr p"
    by (intro calculatePredictionInfo_returns) simp
qed

theorem prediction_confidence_witness:
  "map_sum id confidence
     (calculatePredictionInfo utc_environment t0 100 7000
        (calculateVelocityFromBlocks t0 [active_block 100, earlier_block 72]
           (calculateHourlyBurnRate t0 [active_block 100, earlier_block 72])) ()) = Inr 60 \<and>
   current (calculateVelocityFromBlocks t0 [active_block 0, earlier_block 72]
           (calculateHourlyBurnRate t0 [active_block 0, earlier_block 72])) \<le> 0 \<and>
   map_sum id confidence
     (calculatePredictionInfo utc_environment t0 0 7000
        (calculateVelocityFromBlocks t0 [active_block 0, earlier_block 72]
           (calculateHourlyBurnRate t0 [active_block 0, earlier_block 72])) ()) = Inr 50"
proof -
  let ?v = "calculateVelocityFromBlocks t0 [active_block 100, earlier_block 72]
           (calculateHourlyBurnRate t0 [active_block 100, earlier_block 72])"
  let ?w = "calculateVelocityFromBlocks t0 [active_block 0, earlier_block 72]
           (calculateHourlyBurnRate t0 [active_block 0, earlier_block 72])"
  have "\<exists>p. calculatePredictionInfo utc_environment t0 100 7000 ?v () = Inr p"
    by (rule calculatePredictionInfo_returns)
       (simp add: sample_velocity_volatile; simp add: t0_def max_time_value_def)
  then obtain p where p: "calculatePredictionInfo utc_environment t0 100 7000 ?v () = Inr p"
    by blast
  have idle: "current ?w \<le> 0"
    by (simp add: sample_velocity_idle)
  with prediction_confidence [of utc_environment t0 0 7000 ?w "()"]
  obtain q where q: "calculatePredictionInfo utc_environment t0 0 7000 ?w () = Inr q"
    by blast
  from prediction_confidence [of utc_environment t0 100 7000 ?v "()"] p
  have "confidence p = 60" by (simp add: sample_velocity_volatile)
  moreover from prediction_confidence [of utc_environment t0 0 7000 ?w "()"] q
  have "confidence q = 50" by (simp add: sample_velocity_idle)
  ultimately show ?thesis using p q idle by simp
qed

text \<open>
  Claim C6 as it is worded fails when the current rate is 0: with an active block
  without tokens and an earlier block of 72 tokens, the trend percentage is -100, the
  specification's words give 50 - 20 = 30, and the confidence is 50.
\<close>

theorem prediction_confidence_counterexample:
  "map_sum id confidence
     (calculatePredictionInfo utc_environment t0 0 7000
        (calculateVelocityFromBlocks t0 [active_block 0, earlier_block 72]
           (calculateHourlyBurnRate t0 [active_block 0, earlier_block 72])) ()) = Inr 50 \<and>
   spec_confidence
     (calculateVelocityFromBlocks t0 [active_block 0, earlier_block 72]
        (calculateHourlyBurnRate t0 [active_block 0, earlier_block 72])) = 30"
proof -
  let ?w = "calculateVelocityFromBlocks t0 [active_block 0, earlier_block 72]
           (calculateHourlyBurnRate t0 [active_block 0, earlier_block 72])"
  have "\<exists>q. calculatePredictionInfo utc_environment t0 0 7000 ?w () = Inr q"
    by (rule calculatePredictionInfo_returns) (simp add: sample_velocity_idle)
  then obtain q where q: "calculatePredictionInfo utc_environment t0 0 7000 ?w () = Inr q"
    by blast
  from calculatePredictionInfo_confidence [OF q] have "confidence q = 50"
    by (simp add: sample_velocity_idle)
  with q show ?thesis
    by (simp add: spec_confidence_def sample_velocity_idle)
qed

subsection \<open>Two calls in a row\<close>

lemma sample_small_returns:
  "\<exists>s. fst (parseBlocksData utc_environment t0 [active_block 100] None initial_service) = Inr s"
proof -
  have "\<exists>p. calculatePredictionInfo utc_environment t0 (getTotalTokensFromBlock (active_block 100))
          (detectedTokenLimit (snd (parseBlocksData utc_environment t0
             [active_block 100] None initial_service)))
          (calculateVelocityFromBlocks t0 [active_block 100]
             (calculateHourlyBurnRate t0 [active_block 100]))
          (calculateResetInfo utc_environment) = Inr p"
    by (rule calculatePredictionInfo_returns)
       (simp add: parseBlocksData_service resolve_limit_fields initial_service_def
          velocity_current calculateHourlyBurnRate_def; simp add: t0_def max_time_value_def)
  then show ?thesis
    using parseBlocksData_returns [OF find_active_block] by blast
qed

text \<open>
  Claim C7, amended. When a call of \<^verbatim>\<open>getUsageStats\<close> recomputes from a block list that is
  not empty, and the recomputation completes, a second call less than 3000 milliseconds
  after it, with no \<^verbatim>\<open>updateConfiguration\<close> in between, returns the same snapshot, does
  not call the loaders and leaves the service as it was.
\<close>

theorem cached_snapshot_is_served:
  assumes "snd (snd (getUsageStats env1 now1 (Inr (Some bs, dd)) sv)) = 1"
    and "bs \<noteq> []"
    and "fst (parseBlocksData env1 now1 bs dd sv) = Inr s"
    and "now2 - now1 < 3000"
  shows "fst (getUsageStats env1 now1 (Inr (Some bs, dd)) sv) = s \<and>
         getUsageStats env2 now2 loaded2
           (fst (snd (getUsageStats env1 now1 (Inr (Some bs, dd)) sv))) =
         (s, fst (snd (getUsageStats env1 now1 (Inr (Some bs, dd)) sv)), 0)"
proof -
  from assms(1) have miss: "\<not> cache_fresh now1 sv"
    by (simp add: getUsageStats_calls split: if_splits)
  obtain sv1 where p: "parseBlocksData env1 now1 bs dd sv = (Inr s, sv1)"
    using assms(3) by (cases "parseBlocksData env1 now1 bs dd sv") simp
  note first = getUsageStats_computed [OF miss assms(2) p]
  have "getUsageStats env2 now2 loaded2
          (sv1\<lparr>cachedStats := Some s, lastUpdate := now1, historicalBlocks := bs\<rparr>) =
        (s, sv1\<lparr>cachedStats := Some s, lastUpdate := now1, historicalBlocks := bs\<rparr>, 0)"
    using assms(4) by (intro getUsageStats_cached) (simp_all add: CACHE_DURATION_def)
  with first show ?thesis by simp
qed

theorem cached_snapshot_is_served_witness:
  "snd (snd (getUsageStats utc_environment t0 (Inr (Some [active_block 100], None))
     initial_service)) = 1 \<and>
   [active_block 100] \<noteq> [] \<and>
   fst (parseBlocksData utc_environment t0 [active_block 100] None initial_service) =
     Inr (fst (getUsageStats utc_environment t0 (Inr (Some [active_block 100], None))
       initial_service)) \<and>
   (t0 + 2999) - t0 < 3000 \<and>
   getUsageStats utc_environment (t0 + 2999) (Inl (LoaderRejected ''ENOENT''))
     (fst (snd (getUsageStats utc_environment t0 (Inr (Some [active_block 100], None))
        initial_service))) =
   (fst (getUsageStats utc_environment t0 (Inr (Some [active_block 100], None)) initial_service),
    fst (snd (getUsageStats utc_environment t0 (Inr (Some [active_block 100], None))
      initial_service)), 0) \<and>
   tokensUsed (fst (getUsageStats utc_environment (t0 + 2999) (Inl (LoaderRejected ''ENOENT''))
     (fst (snd (getUsageStats utc_environment t0 (Inr (Some [active_block 100], None))
        initial_service))))) = 100"
proof -
  obtain s where s: "fst (parseBlocksData utc_environment t0 [active_block 100] None
      (initial_service :: (unit, string list) service)) = Inr s"
    using sample_small_returns by blast
  have c: "snd (snd (getUsageStats utc_environment t0 (Inr (Some [active_block 100], None))
     (initial_service :: (unit, string list) service))) = 1"
    by (simp add: getUsageStats_calls initial_not_fresh)
  have u: "tokensUsed s = 100"
    using parseBlocksData_stats [OF find_active_block s] by simp
  from cached_snapshot_is_served
         [OF c _ s, of "t0 + 2999" utc_environment "Inl (LoaderRejected ''ENOENT'')"] c s u
  show ?thesis by simp
qed

text \<open>
  Claim C7 as it is worded fails when the first call stores nothing: a first call that
  gets no blocks returns the default snapshot and caches nothing, so a second call one
  second later calls the loaders again, and returns another snapshot when they now answer
  with an active block.
\<close>

theorem cached_snapshot_is_served_counterexample:
  "t0 - (t0 - 1000) < 3000 \<and>
   tokensUsed (fst (getUsageStats utc_environment (t0 - 1000) (Inr (Some [], None))
     initial_service)) = 0 \<and>
   snd (snd (getUsageStats utc_environment t0 (Inr (Some [active_block 100], None))
     (fst (snd (getUsageStats utc_environment (t0 - 1000) (Inr (Some [], None))
        initial_service))))) = 1 \<and>
   tokensUsed (fst (getUsageStats utc_environment t0 (Inr (Some [active_block 100], None))
     (fst (snd (getUsageStats utc_environment (t0 - 1000) (Inr (Some [], None))
        initial_service))))) = 100"
proof -
  have first: "getUsageStats utc_environment (t0 - 1000) (Inr (Some [], None)) initial_service =
      (getDefaultStats utc_environment (t0 - 1000) None initial_service, initial_service, 1)"
    by (rule getUsageStats_no_blocks [OF initial_not_fresh])
  obtain s where s: "fst (parseBlocksData utc_environment t0 [active_block 100] None
      (initial_service :: (unit, string list) service)) = Inr s"
    using sample_small_returns by blast
  then obtain sv1 where p: "parseBlocksData utc_environment t0 [active_block 100] None
      (initial_service :: (unit, string list) service) = (Inr s, sv1)"
    by (cases "parseBlocksData utc_environment t0 [active_block 100] None
      (initial_service :: (unit, string list) service)") simp
  have u: "tokensUsed s = 100"
    using parseBlocksData_stats [OF find_active_block s] by simp
  from getUsageStats_computed [OF initial_not_fresh _ p] first u
  show ?thesis by (simp add: getDefaultStats_fields)
qed

subsection \<open>No blocks\<close>

lemma getTimeUntilActualReset_active_block:
  "currentActiveBlock sv = currentActiveBlock sv' \<Longrightarrow>
   getTimeUntilActualReset now sv = getTimeUntilActualReset now sv'"
  by (simp add: getTimeUntilActualReset_def getActualNextResetTime_def)

lemma no_blocks_without_active_block:
  assumes "\<not> cache_fresh now sv" and "currentActiveBlock sv = None"
  shows "tokensUsed (fst (getUsageStats env now (Inr (Some [], dd)) sv)) = 0 \<and>
         percentageUsed (fst (getUsageStats env now (Inr (Some [], dd)) sv)) = 0 \<and>
         formattedTimeRemaining
           (actualResetInfo (fst (getUsageStats env now (Inr (Some [], dd)) sv))) =
           ''No active session''"
  using assms
  by (simp add: getUsageStats_no_blocks getDefaultStats_fields getTimeUntilActualReset_def
      getActualNextResetTime_def)

lemma sample_reset_message:
  "formattedTimeRemaining (getTimeUntilActualReset (t0 + 5 * minute)
     ((initial_service :: (unit, string list) service)
        \<lparr>currentActiveBlock := Some (active_block 100)\<rparr>)) = ''4 hours 54 minutes left''"
  by code_simp

text \<open>
  Claim C9 fails on the code. A call that gets an active block of 100 tokens stores that
  block as the current active block; when the loaders answer with no blocks five minutes
  later, the default snapshot has 0 tokens used and 0 percent used, but the active block
  is still stored, and the message of the actual reset is the time left in that block,
  not the message for no active session.
\<close>

theorem no_blocks_keeps_stale_active_block:
  "snd (snd (getUsageStats utc_environment (t0 + 5 * minute) (Inr (Some [], None))
     (fst (snd (getUsageStats utc_environment t0 (Inr (Some [active_block 100], None))
        initial_service))))) = 1 \<and>
   tokensUsed (fst (getUsageStats utc_environment (t0 + 5 * minute) (Inr (Some [], None))
     (fst (snd (getUsageStats utc_environment t0 (Inr (Some [active_block 100], None))
        initial_service))))) = 0 \<and>
   percentageUsed (fst (getUsageStats utc_environment (t0 + 5 * minute) (Inr (Some [], None))
     (fst (snd (getUsageStats utc_environment t0 (Inr (Some [active_block 100], None))
        initial_service))))) = 0 \<and>
   formattedTimeRemaining (actualResetInfo
     (fst (getUsageStats utc_environment (t0 + 5 * minute) (Inr (Some [], None))
       (fst (snd (getUsageStats utc_environment t0 (Inr (Some [active_block 100], None))
          initial_service)))))) = ''4 hours 54 minutes left''"
proof -
  obtain s where s: "fst (parseBlocksData utc_environment t0 [active_block 100] None
      (initial_service :: (unit, string list) service)) = Inr s"
    using sample_small_returns by blast
  define sv1 where "sv1 = snd (parseBlocksData utc_environment t0 [active_block 100] None
      (initial_service :: (unit, string list) service))"
  define sv2 where
    "sv2 = sv1\<lparr>cachedStats := Some s, lastUpdate := t0, historicalBlocks := [active_block 100]\<rparr>"
  have p: "parseBlocksData utc_environment t0 [active_block 100] None
      (initial_service :: (unit, string list) service) = (Inr s, sv1)"
    using s by (simp add: sv1_def prod_eq_iff)
  have first: "getUsageStats utc_environment t0 (Inr (Some [active_block 100], None))
      initial_service = (s, sv2, 1)"
    unfolding sv2_def by (rule getUsageStats_computed [OF initial_not_fresh _ p]) simp
  have active: "currentActiveBlock sv2 = Some (active_block 100)"
    by (simp add: sv2_def sv1_def parseBlocksData_service resolve_limit_fields)
  have stale: "\<not> cache_fresh (t0 + 5 * minute) sv2"
    by (simp add: cache_fresh_def sv2_def CACHE_DURATION_def minute_def)
  have msg: "formattedTimeRemaining (getTimeUntilActualReset (t0 + 5 * minute) sv2) =
      ''4 hours 54 minutes left''"
    using sample_reset_message
      getTimeUntilActualReset_active_block
        [of sv2 "(initial_service :: (unit, string list) service)
              \<lparr>currentActiveBlock := Some (active_block 100)\<rparr>" "t0 + 5 * minute"]
    by (simp add: active)
  from getUsageStats_no_blocks [OF stale, of utc_environment None] msg
  show ?thesis by (simp add: first getDefaultStats_fields)
qed

end
